theory Spec2Isabelle
  imports
    Main
    "HOL-Library.Word"
    "HOL-Library.Sublist"
    "HOL-Library.Signed_Division"
begin

section \<open>Strings: the functions of Go's \<open>strings\<close> and \<open>strconv\<close> the package calls\<close>

text \<open>
  A Go string is a sequence of bytes; \<open>string\<close> (a list of 8-bit characters) models it.

  \<^verbatim>\<open>strings.HasSuffix(s, suffix)\<close> is
  \<^verbatim>\<open>len(s) >= len(suffix) && s[len(s)-len(suffix):] == suffix\<close>, and
  \<^verbatim>\<open>strings.TrimSuffix(s, suffix)\<close> returns \<^verbatim>\<open>s[:len(s)-len(suffix)]\<close> when
  \<open>s\<close> has the suffix and \<open>s\<close> itself otherwise.
\<close>

definition HasSuffix :: "string \<Rightarrow> string \<Rightarrow> bool" where
  "HasSuffix s suff \<longleftrightarrow>
     length suff \<le> length s \<and> drop (length s - length suff) s = suff"

definition TrimSuffix :: "string \<Rightarrow> string \<Rightarrow> string" where
  "TrimSuffix s suff =
     (if HasSuffix s suff then take (length s - length suff) s else s)"

text \<open>
  \<^verbatim>\<open>strings.SplitN(s, sep, 2)\<close> for a separator of one byte: the string is cut at the
  first occurrence of the separator into the part before it and the whole remainder after
  it; a string without the separator comes back as the only element.
\<close>

definition SplitN2 :: "string \<Rightarrow> char \<Rightarrow> string list" where
  "SplitN2 s sep =
     (if sep \<in> set s
      then [takeWhile (\<lambda>c. c \<noteq> sep) s, tl (dropWhile (\<lambda>c. c \<noteq> sep) s)]
      else [s])"

text \<open>
  \<^verbatim>\<open>strconv.ParseUint(s, 10, 16)\<close>: the empty string, any byte that is not a decimal
  digit (a sign and an underscore included) and any value above 65535 give an error,
  here \<open>None\<close>.
\<close>

definition isDigit :: "char \<Rightarrow> bool" where
  "isDigit c \<longleftrightarrow> (48::nat) \<le> of_char c \<and> (of_char c :: nat) \<le> 57"

definition digitVal :: "char \<Rightarrow> nat" where
  "digitVal c = of_char c - 48"

definition decimalVal :: "string \<Rightarrow> nat" where
  "decimalVal s = foldl (\<lambda>n c. 10 * n + digitVal c) 0 s"

definition ParseUint16 :: "string \<Rightarrow> 16 word option" where
  "ParseUint16 s =
     (if s \<noteq> [] \<and> list_all isDigit s \<and> decimalVal s \<le> 65535
      then Some (of_nat (decimalVal s)) else None)"

text \<open>An unsigned value in decimal, as the verb \<^verbatim>\<open>%d\<close> prints it.\<close>

fun formatUint :: "nat \<Rightarrow> string" where
  "formatUint n =
     (if n < 10 then [char_of (48 + n)]
      else formatUint (n div 10) @ [char_of (48 + n mod 10)])"

section \<open>Names\<close>

text \<open>
  \<^verbatim>\<open>
  func getDomain(zone string) string {
      return strings.TrimSuffix(zone, ".")
  }

  func getRecordName(zone, name string) string {
      if name == "@" {
          return "@"
      }
      return strings.TrimSuffix(strings.TrimSuffix(name, zone), ".")
  }
  \<close>
\<close>

definition getDomain :: "string \<Rightarrow> string" where
  "getDomain zone = TrimSuffix zone ''.''"

definition getRecordName :: "string \<Rightarrow> string \<Rightarrow> string" where
  "getRecordName zone name =
     (if name = ''@'' then ''@''
      else TrimSuffix (TrimSuffix name zone) ''.'')"

section \<open>Durations and the two record shapes\<close>

text \<open>
  \<^verbatim>\<open>time.Duration\<close> is an \<^verbatim>\<open>int64\<close> count of nanoseconds and Go's \<^verbatim>\<open>int\<close>
  has 64 bits on the 64-bit targets; both are 64-bit words read as two's complement.
  Multiplication wraps around; \<^verbatim>\<open>/\<close> truncates towards zero.
\<close>

type_synonym go_int = "64 word"
type_synonym Duration = "64 word"

definition Second :: Duration where
  "Second = 1000000000"

definition duration_div :: "Duration \<Rightarrow> Duration \<Rightarrow> Duration" where
  "duration_div a b = word_of_int (sint a sdiv sint b)"

text \<open>The record of the vendor's API.\<close>

record godaddyRecord =
  Type :: string
  Name :: string
  Data :: string
  TTL :: go_int

text \<open>
  The generic records of \<^verbatim>\<open>libdns\<close>: the struct \<^verbatim>\<open>libdns.RR\<close>, and the variants
  \<^verbatim>\<open>Address{Name, TTL, IP}\<close>, \<^verbatim>\<open>TXT{Name, TTL, Text}\<close>,
  \<^verbatim>\<open>CNAME{Name, TTL, Target}\<close>, \<^verbatim>\<open>MX{Name, TTL, Preference, Target}\<close>,
  \<^verbatim>\<open>NS{Name, TTL, Target}\<close> and \<^verbatim>\<open>RR\<close> itself, with the fields in this order.
  These are the variants \<^verbatim>\<open>convertToLibdnsRecord\<close> builds. \<^verbatim>\<open>libdns.Record\<close> is an
  interface, and \<^verbatim>\<open>convertFromLibdnsRecord\<close> uses nothing of a record but what its
  method \<^verbatim>\<open>RR()\<close> returns: \<open>OtherRecord\<close> is a record of any other type that
  implements the interface (\<^verbatim>\<open>libdns.SRV\<close>, \<^verbatim>\<open>libdns.CAA\<close>, a type of the caller),
  given by that value. The type \<open>'ip\<close> stands for \<^verbatim>\<open>netip.Addr\<close>.
\<close>

record RR =
  rrName :: string
  rrTTL :: Duration
  rrType :: string
  rrData :: string

datatype 'ip Record =
    Address string Duration 'ip
  | TXT string Duration string
  | CNAME string Duration string
  | MX string Duration "16 word" string
  | NS string Duration string
  | RR RR
  | OtherRecord RR

text \<open>
  The library functions whose tables and grammars are outside the package are
  parameters of the model: the Unicode case mapping \<^verbatim>\<open>strings.ToUpper\<close> applies to a
  string with a byte above 127, \<^verbatim>\<open>netip.ParseAddr\<close> (\<open>None\<close> for its error),
  \<^verbatim>\<open>Addr.Is6\<close> and \<^verbatim>\<open>Addr.String\<close>, and the data string that \<^verbatim>\<open>libdns\<close> prints
  for a mail exchange from its preference and its target. Every theorem below that
  mentions \<open>L\<close> holds for whatever these functions compute.
\<close>

record 'ip library =
  unicodeToUpper :: "string \<Rightarrow> string"
  ParseAddr :: "string \<Rightarrow> 'ip option"
  Is6 :: "'ip \<Rightarrow> bool"
  AddrString :: "'ip \<Rightarrow> string"
  MXData :: "16 word \<Rightarrow> string \<Rightarrow> string"

text \<open>
  \<^verbatim>\<open>strings.ToUpper\<close>: a string of ASCII bytes only has its letters \<^verbatim>\<open>a\<close> to
  \<^verbatim>\<open>z\<close> replaced by \<^verbatim>\<open>A\<close> to \<^verbatim>\<open>Z\<close>; any other string goes through the Unicode
  mapping.
\<close>

definition isASCII :: "char \<Rightarrow> bool" where
  "isASCII c \<longleftrightarrow> (of_char c :: nat) < 128"

definition asciiUpper :: "char \<Rightarrow> char" where
  "asciiUpper c =
     (if (97::nat) \<le> of_char c \<and> (of_char c :: nat) \<le> 122
      then char_of (of_char c - (32::nat)) else c)"

definition ToUpper :: "'ip library \<Rightarrow> string \<Rightarrow> string" where
  "ToUpper L s = (if list_all isASCII s then map asciiUpper s else unicodeToUpper L s)"

text \<open>
  The method \<^verbatim>\<open>RR()\<close> of each variant, as \<^verbatim>\<open>libdns\<close> defines it: an address is of
  type \<^verbatim>\<open>AAAA\<close> when \<^verbatim>\<open>IP.Is6()\<close> and \<^verbatim>\<open>A\<close> otherwise, with
  \<^verbatim>\<open>IP.String()\<close> as data; a mail exchange has the data the library prints for its
  preference and target; \<^verbatim>\<open>RR\<close> returns itself, and a record of another type returns
  the value it is given by.
\<close>

fun Record_RR :: "'ip library \<Rightarrow> 'ip Record \<Rightarrow> RR" where
  "Record_RR L (Address name ttl ip) =
     \<lparr>rrName = name, rrTTL = ttl,
      rrType = (if Is6 L ip then ''AAAA'' else ''A''), rrData = AddrString L ip\<rparr>"
| "Record_RR L (TXT name ttl txt) =
     \<lparr>rrName = name, rrTTL = ttl, rrType = ''TXT'', rrData = txt\<rparr>"
| "Record_RR L (CNAME name ttl target) =
     \<lparr>rrName = name, rrTTL = ttl, rrType = ''CNAME'', rrData = target\<rparr>"
| "Record_RR L (MX name ttl preference target) =
     \<lparr>rrName = name, rrTTL = ttl, rrType = ''MX'',
      rrData = MXData L preference target\<rparr>"
| "Record_RR L (NS name ttl target) =
     \<lparr>rrName = name, rrTTL = ttl, rrType = ''NS'', rrData = target\<rparr>"
| "Record_RR L (RR r) = r"
| "Record_RR L (OtherRecord r) = r"

section \<open>The codec\<close>

text \<open>
  \<^verbatim>\<open>convertToLibdnsRecord\<close>: \<^verbatim>\<open>ttl := time.Duration(gr.TTL) * time.Second\<close>, then a
  switch on \<^verbatim>\<open>strings.ToUpper(gr.Type)\<close>. The fallback of every failing branch is
  \<^verbatim>\<open>libdns.RR{Name: gr.Name, TTL: ttl, Type: gr.Type, Data: gr.Data}\<close>.
\<close>

definition fallbackRR :: "godaddyRecord \<Rightarrow> 'ip Record" where
  "fallbackRR gr =
     RR \<lparr>rrName = Name gr, rrTTL = TTL gr * Second, rrType = Type gr, rrData = Data gr\<rparr>"

definition convertToLibdnsRecord :: "'ip library \<Rightarrow> godaddyRecord \<Rightarrow> 'ip Record" where
  "convertToLibdnsRecord L gr =
     (let ttl = TTL gr * Second; t = ToUpper L (Type gr) in
      if t = ''A'' \<or> t = ''AAAA'' then
        (case ParseAddr L (Data gr) of
           None \<Rightarrow> fallbackRR gr
         | Some ip \<Rightarrow> Address (Name gr) ttl ip)
      else if t = ''TXT'' then TXT (Name gr) ttl (Data gr)
      else if t = ''CNAME'' then CNAME (Name gr) ttl (Data gr)
      else if t = ''MX'' then
        (case SplitN2 (Data gr) (CHR '' '') of
           [p0, p1] \<Rightarrow>
             (case ParseUint16 p0 of
                Some pref \<Rightarrow> MX (Name gr) ttl pref p1
              | None \<Rightarrow> fallbackRR gr)
         | _ \<Rightarrow> fallbackRR gr)
      else if t = ''NS'' then NS (Name gr) ttl (Data gr)
      else fallbackRR gr)"

text \<open>
  \<^verbatim>\<open>
  func convertFromLibdnsRecord(record libdns.Record, zone string) (godaddyRecord, error) {
      rr := record.RR()
      ttlSeconds := int(rr.TTL / time.Second)
      if ttlSeconds < 600 {
          ttlSeconds = 600
      }
      return godaddyRecord{Type: rr.Type, Name: getRecordName(zone, rr.Name),
                           Data: rr.Data, TTL: ttlSeconds}, nil
  }
  \<close>
  The error is \<^verbatim>\<open>nil\<close> on the only return, so the model returns the record alone.
\<close>

definition convertFromLibdnsRecord :: "'ip library \<Rightarrow> 'ip Record \<Rightarrow> string \<Rightarrow> godaddyRecord" where
  "convertFromLibdnsRecord L record zone =
     (let rr = Record_RR L record;
          ttlSeconds = duration_div (rrTTL rr) Second;
          ttlSeconds = (if sint ttlSeconds < 600 then 600 else ttlSeconds)
      in \<lparr>Type = rrType rr, Name = getRecordName zone (rrName rr),
          Data = rrData rr, TTL = ttlSeconds\<rparr>)"

section \<open>The provider and the remote calls\<close>

record Provider =
  APIToken :: string
  UseOTE :: bool
  HTTPTimeout :: Duration

definition getApiHost :: "Provider \<Rightarrow> string" where
  "getApiHost p =
     (if UseOTE p then ''https://api.ote-godaddy.com'' else ''https://api.godaddy.com'')"

record Client =
  Timeout :: Duration

definition getHTTPClient :: "Provider \<Rightarrow> Client" where
  "getHTTPClient p =
     (let timeout = HTTPTimeout p;
          timeout = (if timeout = 0 then 30 * Second else timeout)
      in \<lparr>Timeout = timeout\<rparr>)"

text \<open>
  A request as \<^verbatim>\<open>http.NewRequestWithContext(ctx, method, url, body)\<close> builds it; the
  header is an association list and \<^verbatim>\<open>Header.Set\<close> replaces the value of a key. A
  response is its status code with what \<^verbatim>\<open>io.ReadAll(resp.Body)\<close> returns: the bytes
  and the error, \<open>None\<close> for \<^verbatim>\<open>nil\<close>.
\<close>

definition MethodGet :: string where "MethodGet = ''GET''"
definition MethodPut :: string where "MethodPut = ''PUT''"
definition MethodDelete :: string where "MethodDelete = ''DELETE''"

definition StatusOK :: int where "StatusOK = 200"
definition StatusNoContent :: int where "StatusNoContent = 204"

record 'ctx Request =
  reqCtx :: 'ctx
  reqMethod :: string
  reqURL :: string
  reqHeader :: "(string \<times> string) list"
  reqBody :: "string option"

record Response =
  StatusCode :: int
  bodyBytes :: string
  bodyErr :: "string option"

definition Header_Set ::
  "string \<Rightarrow> string \<Rightarrow> (string \<times> string) list \<Rightarrow> (string \<times> string) list" where
  "Header_Set k v h = (k, v) # filter (\<lambda>kv. fst kv \<noteq> k) h"

definition setCommonHeaders :: "Provider \<Rightarrow> 'ctx Request \<Rightarrow> 'ctx Request" where
  "setCommonHeaders p req =
     req\<lparr>reqHeader :=
       Header_Set ''User-Agent'' ''libdns-godaddy/1.0''
         (Header_Set ''Accept'' ''application/json''
           (Header_Set ''Authorization'' (''sso-key '' @ APIToken p) (reqHeader req)))\<rparr>"

text \<open>
  Errors are values. \<open>LibError\<close> is an error a library call returned, \<open>Errorf_w\<close> is
  \<^verbatim>\<open>fmt.Errorf("<message>: %w", err)\<close>, and the three others are the status errors of
  \<^verbatim>\<open>GetRecords\<close>, \<^verbatim>\<open>AppendRecords\<close> and \<^verbatim>\<open>DeleteRecords\<close> with their arguments.
\<close>

datatype error =
    LibError string
  | Errorf_w string error
  | APIRequestFailed int string
  | FailedToAppend string string int string
  | FailedToDelete string string int string

text \<open>
  What lies behind the HTTP client is a parameter: \<open>requestError\<close> is the error of
  \<^verbatim>\<open>http.NewRequestWithContext\<close> (\<open>None\<close> when the request is built), \<open>roundTrip\<close> is
  \<^verbatim>\<open>client.Do\<close> on a remote store of type \<open>'w\<close>, which it may change, and \<open>Marshal\<close> and
  \<open>Unmarshal\<close> are \<^verbatim>\<open>json.Marshal\<close> and \<^verbatim>\<open>json.Unmarshal\<close> on lists of vendor
  records (\<open>Inl\<close> for an error).
\<close>

record ('ctx, 'w) transport =
  requestError :: "'ctx \<Rightarrow> string \<Rightarrow> string \<Rightarrow> string option"
  roundTrip :: "Client \<Rightarrow> 'ctx Request \<Rightarrow> 'w \<Rightarrow> (string + Response) \<times> 'w"
  Marshal :: "godaddyRecord list \<Rightarrow> string + string"
  Unmarshal :: "string \<Rightarrow> string + godaddyRecord list"

definition NewRequestWithContext ::
  "('ctx, 'w) transport \<Rightarrow> 'ctx \<Rightarrow> string \<Rightarrow> string \<Rightarrow> string option
     \<Rightarrow> string + 'ctx Request" where
  "NewRequestWithContext T ctx method url body =
     (case requestError T ctx method url of
        Some err \<Rightarrow> Inl err
      | None \<Rightarrow>
          Inr \<lparr>reqCtx = ctx, reqMethod = method, reqURL = url, reqHeader = [],
               reqBody = body\<rparr>)"

text \<open>
  The state the operations thread: the remote store, and the requests handed to
  \<^verbatim>\<open>client.Do\<close> so far, oldest first. The second component is a log kept by the model so
  that theorems can speak of the calls an operation issued.
\<close>

record ('ctx, 'w) net =
  remote :: 'w
  sent :: "'ctx Request list"

definition client_Do ::
  "('ctx, 'w) transport \<Rightarrow> Client \<Rightarrow> 'ctx Request \<Rightarrow> ('ctx, 'w) net
     \<Rightarrow> (string + Response) \<times> ('ctx, 'w) net" where
  "client_Do T client req s =
     (case roundTrip T client req (remote s) of
        (res, w') \<Rightarrow> (res, \<lparr>remote = w', sent = sent s @ [req]\<rparr>))"

text \<open>
  A Go function returning \<^verbatim>\<open>([]libdns.Record, error)\<close> returns a pair here: the slice
  (\<^verbatim>\<open>nil\<close> is the empty list) and the error (\<open>None\<close> for \<^verbatim>\<open>nil\<close>).
\<close>

type_synonym 'ip result = "'ip Record list \<times> error option"

definition GetRecords ::
  "('ctx, 'w) transport \<Rightarrow> 'ip library \<Rightarrow> Provider \<Rightarrow> 'ctx \<Rightarrow> string \<Rightarrow> ('ctx, 'w) net
     \<Rightarrow> 'ip result \<times> ('ctx, 'w) net" where
  "GetRecords T L p ctx zone s =
     (let client = getHTTPClient p;
          domain = getDomain zone;
          url = getApiHost p @ ''/v1/domains/'' @ domain @ ''/records''
      in case NewRequestWithContext T ctx MethodGet url None of
           Inl err \<Rightarrow> (([], Some (Errorf_w ''failed to create request'' (LibError err))), s)
         | Inr req \<Rightarrow>
             (case client_Do T client (setCommonHeaders p req) s of
                (Inl err, s') \<Rightarrow>
                  (([], Some (Errorf_w ''failed to execute request'' (LibError err))), s')
              | (Inr resp, s') \<Rightarrow>
                  (case bodyErr resp of
                     Some err \<Rightarrow>
                       (([], Some (Errorf_w ''failed to read response body'' (LibError err))), s')
                   | None \<Rightarrow>
                       if StatusCode resp \<noteq> StatusOK
                       then (([], Some (APIRequestFailed (StatusCode resp) (bodyBytes resp))), s')
                       else
                         (case Unmarshal T (bodyBytes resp) of
                            Inl err \<Rightarrow>
                              (([], Some (Errorf_w ''failed to parse response JSON''
                                            (LibError err))), s')
                          | Inr resultObj \<Rightarrow>
                              ((map (convertToLibdnsRecord L) resultObj, None), s')))))"

text \<open>
  One iteration of the loop of \<^verbatim>\<open>AppendRecords\<close>: convert, marshal, build the
  \<^verbatim>\<open>PUT\<close> request, send it, check the status. It returns the error that makes
  \<^verbatim>\<open>AppendRecords\<close> return, or \<open>None\<close> when the loop goes on.
\<close>

definition appendRecord ::
  "('ctx, 'w) transport \<Rightarrow> 'ip library \<Rightarrow> Provider \<Rightarrow> 'ctx \<Rightarrow> string \<Rightarrow> Client
     \<Rightarrow> 'ip Record \<Rightarrow> ('ctx, 'w) net \<Rightarrow> error option \<times> ('ctx, 'w) net" where
  "appendRecord T L p ctx zone client record s =
     (let gr = convertFromLibdnsRecord L record zone in
      case Marshal T [gr] of
        Inl err \<Rightarrow> (Some (Errorf_w ''failed to marshal record data'' (LibError err)), s)
      | Inr data \<Rightarrow>
          (let url = getApiHost p @ ''/v1/domains/'' @ getDomain zone @ ''/records/''
                       @ Type gr @ ''/'' @ Name gr
           in case NewRequestWithContext T ctx MethodPut url (Some data) of
                Inl err \<Rightarrow> (Some (Errorf_w ''failed to create request'' (LibError err)), s)
              | Inr req \<Rightarrow>
                  (let req = setCommonHeaders p req;
                       req = req\<lparr>reqHeader :=
                               Header_Set ''Content-Type'' ''application/json'' (reqHeader req)\<rparr>
                   in case client_Do T client req s of
                        (Inl err, s') \<Rightarrow>
                          (Some (Errorf_w ''failed to execute request'' (LibError err)), s')
                      | (Inr resp, s') \<Rightarrow>
                          if StatusCode resp \<noteq> StatusOK
                          then (Some (FailedToAppend (Name gr) (getDomain zone)
                                        (StatusCode resp) (bodyBytes resp)), s')
                          else (None, s'))))"

fun appendLoop ::
  "('ctx, 'w) transport \<Rightarrow> 'ip library \<Rightarrow> Provider \<Rightarrow> 'ctx \<Rightarrow> string \<Rightarrow> Client
     \<Rightarrow> 'ip Record list \<Rightarrow> 'ip Record list \<Rightarrow> ('ctx, 'w) net
     \<Rightarrow> 'ip result \<times> ('ctx, 'w) net" where
  "appendLoop T L p ctx zone client [] appendedRecords s = ((appendedRecords, None), s)"
| "appendLoop T L p ctx zone client (record # records) appendedRecords s =
     (case appendRecord T L p ctx zone client record s of
        (Some err, s') \<Rightarrow> (([], Some err), s')
      | (None, s') \<Rightarrow>
          appendLoop T L p ctx zone client records (appendedRecords @ [record]) s')"

definition AppendRecords ::
  "('ctx, 'w) transport \<Rightarrow> 'ip library \<Rightarrow> Provider \<Rightarrow> 'ctx \<Rightarrow> string \<Rightarrow> 'ip Record list
     \<Rightarrow> ('ctx, 'w) net \<Rightarrow> 'ip result \<times> ('ctx, 'w) net" where
  "AppendRecords T L p ctx zone records s =
     appendLoop T L p ctx zone (getHTTPClient p) records [] s"

definition SetRecords ::
  "('ctx, 'w) transport \<Rightarrow> 'ip library \<Rightarrow> Provider \<Rightarrow> 'ctx \<Rightarrow> string \<Rightarrow> 'ip Record list
     \<Rightarrow> ('ctx, 'w) net \<Rightarrow> 'ip result \<times> ('ctx, 'w) net" where
  "SetRecords T L p ctx zone records s = AppendRecords T L p ctx zone records s"

text \<open>
  \<^verbatim>\<open>DeleteRecords\<close> first reads the zone, then runs two loops. The inner loop of the
  first one scans \<^verbatim>\<open>currentRecords\<close> and leaves at the first record that has the type and
  the relative name asked for (\<^verbatim>\<open>break\<close>); \<open>findCurrent\<close> returns that record, or
  \<open>None\<close> when the scan reaches the end.
\<close>

fun findCurrent ::
  "'ip library \<Rightarrow> string \<Rightarrow> RR \<Rightarrow> string \<Rightarrow> 'ip Record list \<Rightarrow> 'ip Record option" where
  "findCurrent L zone recordRR recordName [] = None"
| "findCurrent L zone recordRR recordName (current # currentRecords) =
     (let currentRR = Record_RR L current in
      if rrType currentRR = rrType recordRR
         \<and> getRecordName zone (rrName currentRR) = recordName
      then Some current
      else findCurrent L zone recordRR recordName currentRecords)"

fun findLoop ::
  "'ip library \<Rightarrow> string \<Rightarrow> 'ip Record list \<Rightarrow> 'ip Record list \<Rightarrow> 'ip Record list
     \<Rightarrow> 'ip Record list" where
  "findLoop L zone currentRecords [] deletedRecords = deletedRecords"
| "findLoop L zone currentRecords (record # records) deletedRecords =
     (let recordRR = Record_RR L record;
          recordName = getRecordName zone (rrName recordRR)
      in findLoop L zone currentRecords records
           (case findCurrent L zone recordRR recordName currentRecords of
              Some current \<Rightarrow> deletedRecords @ [current]
            | None \<Rightarrow> deletedRecords))"

text \<open>One iteration of the second loop: the \<^verbatim>\<open>DELETE\<close> call for one verified record.\<close>

definition deleteRecord ::
  "('ctx, 'w) transport \<Rightarrow> 'ip library \<Rightarrow> Provider \<Rightarrow> 'ctx \<Rightarrow> string \<Rightarrow> Client
     \<Rightarrow> 'ip Record \<Rightarrow> ('ctx, 'w) net \<Rightarrow> error option \<times> ('ctx, 'w) net" where
  "deleteRecord T L p ctx zone client record s =
     (let rr = Record_RR L record;
          recordName = getRecordName zone (rrName rr);
          url = getApiHost p @ ''/v1/domains/'' @ getDomain zone @ ''/records/''
                  @ rrType rr @ ''/'' @ recordName
      in case NewRequestWithContext T ctx MethodDelete url None of
           Inl err \<Rightarrow> (Some (Errorf_w ''failed to create delete request'' (LibError err)), s)
         | Inr req \<Rightarrow>
             (case client_Do T client (setCommonHeaders p req) s of
                (Inl err, s') \<Rightarrow>
                  (Some (Errorf_w ''failed to execute delete request'' (LibError err)), s')
              | (Inr resp, s') \<Rightarrow>
                  if StatusCode resp \<noteq> StatusNoContent
                  then (Some (FailedToDelete recordName (getDomain zone)
                                (StatusCode resp) (bodyBytes resp)), s')
                  else (None, s')))"

fun deleteLoop ::
  "('ctx, 'w) transport \<Rightarrow> 'ip library \<Rightarrow> Provider \<Rightarrow> 'ctx \<Rightarrow> string \<Rightarrow> Client
     \<Rightarrow> 'ip Record list \<Rightarrow> 'ip Record list \<Rightarrow> ('ctx, 'w) net
     \<Rightarrow> 'ip result \<times> ('ctx, 'w) net" where
  "deleteLoop T L p ctx zone client [] deletedRecords s = ((deletedRecords, None), s)"
| "deleteLoop T L p ctx zone client (record # records) deletedRecords s =
     (case deleteRecord T L p ctx zone client record s of
        (Some err, s') \<Rightarrow> (([], Some err), s')
      | (None, s') \<Rightarrow> deleteLoop T L p ctx zone client records deletedRecords s')"

definition DeleteRecords ::
  "('ctx, 'w) transport \<Rightarrow> 'ip library \<Rightarrow> Provider \<Rightarrow> 'ctx \<Rightarrow> string \<Rightarrow> 'ip Record list
     \<Rightarrow> ('ctx, 'w) net \<Rightarrow> 'ip result \<times> ('ctx, 'w) net" where
  "DeleteRecords T L p ctx zone records s =
     (case GetRecords T L p ctx zone s of
        ((currentRecords, Some err), s') \<Rightarrow>
          (([], Some (Errorf_w ''failed to get current records'' err)), s')
      | ((currentRecords, None), s') \<Rightarrow>
          (let deletedRecords = findLoop L zone currentRecords records [];
               client = getHTTPClient p
           in deleteLoop T L p ctx zone client deletedRecords deletedRecords s'))"

section \<open>The delete match, in the words of the specification\<close>

text \<open>
  The match key of a record is the pair of its type and its name relative to the zone,
  both read from its RR view. Per request, the specification selects the first remote
  record with the key of the request, and nothing when there is none.
\<close>

definition matchKey :: "'ip library \<Rightarrow> string \<Rightarrow> 'ip Record \<Rightarrow> string \<times> string" where
  "matchKey L zone r =
     (rrType (Record_RR L r), getRecordName zone (rrName (Record_RR L r)))"

definition spec_matches ::
  "'ip library \<Rightarrow> string \<Rightarrow> 'ip Record list \<Rightarrow> 'ip Record list \<Rightarrow> 'ip Record list" where
  "spec_matches L zone currentRecords records =
     concat (map (\<lambda>r. case find (\<lambda>c. matchKey L zone c = matchKey L zone r) currentRecords of
                         Some c \<Rightarrow> [c]
                       | None \<Rightarrow> [])
                 records)"

section \<open>The MX split, in the words of the specification\<close>

text \<open>
  The specification splits the data on the first whitespace run: the first token ends at
  the first whitespace byte and the second starts after the whole run.
\<close>

definition isWhitespace :: "char \<Rightarrow> bool" where
  "isWhitespace c \<longleftrightarrow> c = CHR '' '' \<or> (9::nat) \<le> of_char c \<and> (of_char c :: nat) \<le> 13"

definition spec_splitWhitespaceRun :: "string \<Rightarrow> string list" where
  "spec_splitWhitespaceRun s =
     (if list_ex isWhitespace s
      then [takeWhile (\<lambda>c. \<not> isWhitespace c) s,
            dropWhile isWhitespace (dropWhile (\<lambda>c. \<not> isWhitespace c) s)]
      else [s])"

definition spec_decodeMX :: "godaddyRecord \<Rightarrow> 'ip Record" where
  "spec_decodeMX gr =
     (case spec_splitWhitespaceRun (Data gr) of
        [p0, p1] \<Rightarrow>
          (case ParseUint16 p0 of
             Some pref \<Rightarrow> MX (Name gr) (TTL gr * Second) pref p1
           | None \<Rightarrow> fallbackRR gr)
      | _ \<Rightarrow> fallbackRR gr)"

section \<open>A library and a remote store to run examples on\<close>

text \<open>
  \<open>exampleLibrary\<close> reads dotted-quad IPv4 literals as \<^verbatim>\<open>netip.ParseAddr\<close> does (four
  decimal fields from 0 to 255, no empty field, no leading zero) and knows no other
  literal; its Unicode mapping is never consulted on the ASCII inputs of the examples.
  Its mail exchange data is \<^verbatim>\<open>"%d %s"\<close> of preference and target, and empty for the
  zero value.
\<close>

datatype Addr4 = IPv4 nat nat nat nat

fun fields :: "char \<Rightarrow> string \<Rightarrow> string list" where
  "fields sep [] = [[]]"
| "fields sep (c # cs) =
     (if c = sep then [] # fields sep cs
      else (case fields sep cs of f # fs \<Rightarrow> (c # f) # fs | [] \<Rightarrow> [[c]]))"

definition parseOctet :: "string \<Rightarrow> nat option" where
  "parseOctet f =
     (if f \<noteq> [] \<and> list_all isDigit f \<and> (length f = 1 \<or> hd f \<noteq> CHR ''0'')
         \<and> decimalVal f \<le> 255
      then Some (decimalVal f) else None)"

definition parseIPv4 :: "string \<Rightarrow> Addr4 option" where
  "parseIPv4 s =
     (case map parseOctet (fields (CHR ''.'') s) of
        [Some a, Some b, Some c, Some d] \<Rightarrow> Some (IPv4 a b c d)
      | _ \<Rightarrow> None)"

fun Addr4_String :: "Addr4 \<Rightarrow> string" where
  "Addr4_String (IPv4 a b c d) =
     formatUint a @ ''.'' @ formatUint b @ ''.'' @ formatUint c @ ''.'' @ formatUint d"

definition exampleLibrary :: "Addr4 library" where
  "exampleLibrary =
     \<lparr>unicodeToUpper = (\<lambda>s. s), ParseAddr = parseIPv4, Is6 = (\<lambda>ip. False),
      AddrString = Addr4_String,
      MXData = (\<lambda>preference target.
        if preference = 0 \<and> target = [] then []
        else formatUint (unat preference) @ '' '' @ target)\<rparr>"

text \<open>
  \<open>exampleTransport k\<close> builds every request, answers the first \<open>k\<close> calls with success
  (204 to a \<^verbatim>\<open>DELETE\<close>, 200 otherwise) and every later call with status 500; the remote
  store is the number of calls answered. The body of an answer unmarshals to the two
  records of \<open>exampleZone\<close>.
\<close>

definition exampleZone :: "godaddyRecord list" where
  "exampleZone =
     [\<lparr>Type = ''A'', Name = ''www'', Data = ''192.168.2.10'', TTL = 3600\<rparr>,
      \<lparr>Type = ''TXT'', Name = ''_acme-challenge'', Data = ''token'', TTL = 600\<rparr>]"

definition exampleTransport :: "nat \<Rightarrow> (unit, nat) transport" where
  "exampleTransport k =
     \<lparr>requestError = (\<lambda>ctx method url. None),
      roundTrip = (\<lambda>client req n.
        (Inr \<lparr>StatusCode =
                (if k \<le> n then 500 else if reqMethod req = MethodDelete then 204 else 200),
              bodyBytes = [], bodyErr = None\<rparr>, Suc n)),
      Marshal = (\<lambda>grs. Inr (concat (map Data grs))),
      Unmarshal = (\<lambda>body. Inr exampleZone)\<rparr>"

definition exampleProvider :: Provider where
  "exampleProvider = \<lparr>APIToken = ''key:secret'', UseOTE = False, HTTPTimeout = 0\<rparr>"

definition startNet :: "(unit, nat) net" where
  "startNet = \<lparr>remote = 0, sent = []\<rparr>"

section \<open>Facts about the string functions\<close>

lemma HasSuffix_iff_suffix: "HasSuffix s x \<longleftrightarrow> suffix x s"
proof
  assume "HasSuffix s x"
  then have "s = take (length s - length x) s @ x"
    by (metis HasSuffix_def append_take_drop_id)
  then show "suffix x s" by (metis suffixI)
next
  assume "suffix x s"
  then obtain p where "s = p @ x" by (auto simp: suffix_def)
  then show "HasSuffix s x" by (simp add: HasSuffix_def)
qed

lemma TrimSuffix_append: "TrimSuffix (p @ x) x = p"
  by (simp add: TrimSuffix_def HasSuffix_def)

lemma TrimSuffix_no_suffix: "\<not> suffix x s \<Longrightarrow> TrimSuffix s x = s"
  by (simp add: TrimSuffix_def HasSuffix_iff_suffix)

lemma TrimSuffix_dot: "TrimSuffix s ''.'' = (if suffix ''.'' s then butlast s else s)"
proof (cases "suffix ''.'' s")
  case True
  then obtain p where "s = p @ ''.''" by (auto simp: suffix_def)
  then show ?thesis using True by (simp add: TrimSuffix_append butlast_append)
next
  case False
  then show ?thesis by (simp add: TrimSuffix_no_suffix)
qed

section \<open>The name resolver\<close>

text \<open>
  C4. \<open>getRecordName\<close> returns \<^verbatim>\<open>"@"\<close> for the name \<^verbatim>\<open>"@"\<close>. For any other name it
  removes one trailing occurrence of the zone (a name \<open>p @ zone\<close> becomes \<open>p\<close>, a name
  that does not end with the zone stays as it is) and then one trailing dot. The two
  names of the specification come out as \<^verbatim>\<open>"www"\<close> and \<^verbatim>\<open>"_acme-challenge.sub"\<close>.
\<close>

theorem getRecordName_strips:
  "getRecordName zone ''@'' = ''@'' \<and>
   (p @ zone \<noteq> ''@'' \<longrightarrow>
      getRecordName zone (p @ zone) = (if suffix ''.'' p then butlast p else p)) \<and>
   (name \<noteq> ''@'' \<and> \<not> suffix zone name \<longrightarrow>
      getRecordName zone name = (if suffix ''.'' name then butlast name else name)) \<and>
   getRecordName ''example.com.'' ''www.example.com.'' = ''www'' \<and>
   getRecordName ''example.com.'' ''_acme-challenge.sub.example.com.''
     = ''_acme-challenge.sub''"
proof -
  have a: "getRecordName zone ''@'' = ''@''"
    by (simp add: getRecordName_def)
  have b: "p @ zone \<noteq> ''@'' \<longrightarrow>
      getRecordName zone (p @ zone) = (if suffix ''.'' p then butlast p else p)"
    by (simp add: getRecordName_def TrimSuffix_append TrimSuffix_dot)
  have c: "name \<noteq> ''@'' \<and> \<not> suffix zone name \<longrightarrow>
      getRecordName zone name = (if suffix ''.'' name then butlast name else name)"
    by (simp add: getRecordName_def TrimSuffix_no_suffix TrimSuffix_dot)
  have d: "getRecordName ''example.com.'' ''www.example.com.'' = ''www''"
    by (simp add: getRecordName_def TrimSuffix_def HasSuffix_def)
  have e: "getRecordName ''example.com.'' ''_acme-challenge.sub.example.com.''
             = ''_acme-challenge.sub''"
    by (simp add: getRecordName_def TrimSuffix_def HasSuffix_def)
  from a b c d e show ?thesis by blast
qed

theorem getRecordName_strips_witness:
  "''sub.'' @ ''example.com.'' \<noteq> ''@'' \<and>
   getRecordName ''example.com.'' (''sub.'' @ ''example.com.'') = ''sub'' \<and>
   ''mail.example.org.'' \<noteq> ''@'' \<and> \<not> suffix ''example.com.'' ''mail.example.org.'' \<and>
   getRecordName ''example.com.'' ''mail.example.org.'' = ''mail.example.org''"
  using getRecordName_strips [of "''example.com.''" "''sub.''" "''mail.example.org.''"]
  by (simp add: suffix_def)

text \<open>
  C5 as stated fails: a name that does not end with the zone still loses a trailing dot.
  With the zone \<^verbatim>\<open>"example.com."\<close>, the name \<^verbatim>\<open>"www.example.org."\<close> comes back as
  \<^verbatim>\<open>"www.example.org"\<close>.
\<close>

theorem getRecordName_unchanged_counterexample:
  "''www.example.org.'' \<noteq> ''@'' \<and> \<not> suffix ''example.com.'' ''www.example.org.'' \<and>
   getRecordName ''example.com.'' ''www.example.org.'' = ''www.example.org'' \<and>
   getRecordName ''example.com.'' ''www.example.org.'' \<noteq> ''www.example.org.''"
  by (simp add: getRecordName_def TrimSuffix_def HasSuffix_def suffix_def)

text \<open>
  C5, amended. A name other than \<^verbatim>\<open>"@"\<close> that ends neither with the zone nor with a
  dot is returned unchanged.
\<close>

theorem getRecordName_unchanged:
  "name \<noteq> ''@'' \<Longrightarrow> \<not> suffix zone name \<Longrightarrow> \<not> suffix ''.'' name \<Longrightarrow>
   getRecordName zone name = name"
  by (simp add: getRecordName_def TrimSuffix_no_suffix)

theorem getRecordName_unchanged_witness:
  "''test'' \<noteq> ''@'' \<and> \<not> suffix ''example.com.'' ''test'' \<and> \<not> suffix ''.'' ''test'' \<and>
   getRecordName ''example.com.'' ''test'' = ''test''"
  using getRecordName_unchanged [of "''test''" "''example.com.''"]
  by (simp add: suffix_def)

section \<open>The TTL floor\<close>

lemma sint_Second: "sint Second = 1000000000"
  by (simp add: Second_def)

lemma sdiv_seconds:
  "(a::int) sdiv 1000000000 =
     (if 0 \<le> a then a div 1000000000 else - ((- a) div 1000000000))"
  by (cases "a = 0") (simp_all add: signed_divide_int_def sgn_if)

lemma sdiv_seconds_range:
  assumes "- (2 ^ 63) \<le> (a::int)" "a < 2 ^ 63"
  shows "- (2 ^ 63) \<le> a sdiv 1000000000 \<and> a sdiv 1000000000 < 2 ^ 63"
  using assms unfolding sdiv_seconds by (cases "0 \<le> a") (simp_all, linarith+)

lemma sint_duration_div_Second:
  "sint (duration_div d Second) = sint d sdiv 1000000000"
proof -
  have "- (2 ^ 63) \<le> sint d" "sint d < 2 ^ 63"
    using sint_ge [of d] sint_lt [of d] by simp_all
  then have "- (2 ^ 63) \<le> sint d sdiv 1000000000 \<and> sint d sdiv 1000000000 < 2 ^ 63"
    by (rule sdiv_seconds_range)
  then have "sint (word_of_int (sint d sdiv 1000000000) :: 64 word) = sint d sdiv 1000000000"
    by (simp add: sint_sbintrunc' signed_take_bit_int_eq_self)
  then show ?thesis by (simp add: duration_div_def sint_Second)
qed

lemma sint_times_Second:
  assumes "- 9223372036 \<le> sint (n :: 64 word)" "sint n \<le> 9223372036"
  shows "sint (n * Second) = sint n * 1000000000"
proof -
  have "sint (n * Second) = signed_take_bit 63 (sint n * 1000000000)"
    by (simp add: sint_word_ariths sint_Second)
  also have "\<dots> = sint n * 1000000000"
    using assms by (intro signed_take_bit_int_eq_self) simp_all
  finally show ?thesis .
qed

lemma duration_div_times_Second:
  assumes "- 9223372036 \<le> sint (n :: 64 word)" "sint n \<le> 9223372036"
  shows "duration_div (n * Second) Second = n"
proof -
  have "sint (duration_div (n * Second) Second) = (sint n * 1000000000) sdiv 1000000000"
    using assms by (simp add: sint_duration_div_Second sint_times_Second)
  also have "\<dots> = sint n"
    by (simp add: signed_divide_int_def sgn_mult abs_mult mult_sgn_abs)
  finally show ?thesis by (rule signed_word_eqI)
qed

text \<open>
  C3. The TTL of the vendor record is the TTL of the RR view divided by one second with
  truncation towards zero (\<open>sdiv\<close> on the integers) when that is at least 600, and 600 in
  every other case, zero and negative durations included. Five minutes give 600 and
  fifteen minutes give 900.
\<close>

theorem convertFromLibdnsRecord_TTL:
  "sint (TTL (convertFromLibdnsRecord L record zone)) =
     (if 600 \<le> sint (rrTTL (Record_RR L record)) sdiv 1000000000
      then sint (rrTTL (Record_RR L record)) sdiv 1000000000 else 600) \<and>
   TTL (convertFromLibdnsRecord L (TXT n (300 * Second) txt) ''example.com.'') = 600 \<and>
   TTL (convertFromLibdnsRecord L (TXT n (900 * Second) txt) ''example.com.'') = 900"
proof -
  have a: "sint (TTL (convertFromLibdnsRecord L record zone)) =
     (if 600 \<le> sint (rrTTL (Record_RR L record)) sdiv 1000000000
      then sint (rrTTL (Record_RR L record)) sdiv 1000000000 else 600)"
    by (simp add: convertFromLibdnsRecord_def Let_def sint_duration_div_Second)
  have b: "TTL (convertFromLibdnsRecord L (TXT n (300 * Second) txt) ''example.com.'') = 600"
    by (simp add: convertFromLibdnsRecord_def Let_def duration_div_def Second_def
        signed_divide_int_def)
  have c: "TTL (convertFromLibdnsRecord L (TXT n (900 * Second) txt) ''example.com.'') = 900"
    by (simp add: convertFromLibdnsRecord_def Let_def duration_div_def Second_def
        signed_divide_int_def)
  from a b c show ?thesis by blast
qed

theorem convertFromLibdnsRecord_TTL_witness:
  "sint (TTL (convertFromLibdnsRecord exampleLibrary
       (RR \<lparr>rrName = ''www'', rrTTL = - 1500000000, rrType = ''TXT'', rrData = ''x''\<rparr>)
       ''example.com.'')) = 600 \<and>
   sint (TTL (convertFromLibdnsRecord exampleLibrary
       (RR \<lparr>rrName = ''www'', rrTTL = 3600999999999, rrType = ''TXT'', rrData = ''x''\<rparr>)
       ''example.com.'')) = 3600"
  using convertFromLibdnsRecord_TTL [of exampleLibrary
      "RR \<lparr>rrName = ''www'', rrTTL = - 1500000000, rrType = ''TXT'', rrData = ''x''\<rparr>"
      "''example.com.''"]
    convertFromLibdnsRecord_TTL [of exampleLibrary
      "RR \<lparr>rrName = ''www'', rrTTL = 3600999999999, rrType = ''TXT'', rrData = ''x''\<rparr>"
      "''example.com.''"]
  by (simp add: signed_divide_int_def)

section \<open>Decoding\<close>

lemma SplitN2_none: "sep \<notin> set s \<Longrightarrow> SplitN2 s sep = [s]"
  by (simp add: SplitN2_def)

lemma SplitN2_cut: "sep \<notin> set p0 \<Longrightarrow> SplitN2 (p0 @ sep # p1) sep = [p0, p1]"
  by (induction p0) (auto simp: SplitN2_def)

lemma ParseUint16_no_space: "ParseUint16 p0 = Some pref \<Longrightarrow> CHR '' '' \<notin> set p0"
  by (auto simp: ParseUint16_def list_all_iff isDigit_def split: if_splits)

lemma ToUpper_A: "ToUpper L ''A'' = ''A''" "ToUpper L ''AAAA'' = ''AAAA''"
  by (simp_all add: ToUpper_def isASCII_def asciiUpper_def)

lemma decode_address:
  "ToUpper L (Type gr) = ''A'' \<or> ToUpper L (Type gr) = ''AAAA'' \<Longrightarrow>
   convertToLibdnsRecord L gr =
     (case ParseAddr L (Data gr) of None \<Rightarrow> fallbackRR gr
      | Some ip \<Rightarrow> Address (Name gr) (TTL gr * Second) ip)"
  by (auto simp: convertToLibdnsRecord_def Let_def)

lemma decode_MX:
  "ToUpper L (Type gr) = ''MX'' \<Longrightarrow>
   convertToLibdnsRecord L gr =
     (case SplitN2 (Data gr) (CHR '' '') of
        [p0, p1] \<Rightarrow>
          (case ParseUint16 p0 of
             Some pref \<Rightarrow> MX (Name gr) (TTL gr * Second) pref p1
           | None \<Rightarrow> fallbackRR gr)
      | _ \<Rightarrow> fallbackRR gr)"
  by (simp add: convertToLibdnsRecord_def Let_def)

lemma decode_other:
  "ToUpper L (Type gr) \<notin> {''A'', ''AAAA'', ''TXT'', ''CNAME'', ''MX'', ''NS''} \<Longrightarrow>
   convertToLibdnsRecord L gr = fallbackRR gr"
  by (simp add: convertToLibdnsRecord_def Let_def)

text \<open>
  C1, amended. \<open>convertToLibdnsRecord\<close> is a total function into the records: it has no
  error to return. When the type, upper-cased, is \<^verbatim>\<open>A\<close> or \<^verbatim>\<open>AAAA\<close> and the data is
  no IP literal, when it is \<^verbatim>\<open>MX\<close> and the data has no space or the part before its
  first space is no unsigned 16-bit decimal, and when it is none of the six decoded types
  (\<^verbatim>\<open>SRV\<close> among them), the result is the fallback: the variant \<^verbatim>\<open>RR\<close> with the
  name, the type and the data of the input. Its TTL is the duration
  \<^verbatim>\<open>time.Duration(gr.TTL) * time.Second\<close>; for a TTL of at most 9223372036 seconds in
  absolute value that duration is exactly as many seconds, and dividing it by one second
  gives the TTL of the input back.
\<close>

theorem convertToLibdnsRecord_fallback:
  "((ToUpper L (Type gr) = ''A'' \<or> ToUpper L (Type gr) = ''AAAA'')
      \<and> ParseAddr L (Data gr) = None
      \<longrightarrow> convertToLibdnsRecord L gr = fallbackRR gr) \<and>
   (ToUpper L (Type gr) = ''MX'' \<and> CHR '' '' \<notin> set (Data gr)
      \<longrightarrow> convertToLibdnsRecord L gr = fallbackRR gr) \<and>
   (ToUpper L (Type gr) = ''MX'' \<and> Data gr = p0 @ '' '' @ p1 \<and> CHR '' '' \<notin> set p0
      \<and> ParseUint16 p0 = None
      \<longrightarrow> convertToLibdnsRecord L gr = fallbackRR gr) \<and>
   (ToUpper L (Type gr) \<notin> {''A'', ''AAAA'', ''TXT'', ''CNAME'', ''MX'', ''NS''}
      \<longrightarrow> convertToLibdnsRecord L gr = fallbackRR gr) \<and>
   (fallbackRR gr :: 'ip Record) =
      RR \<lparr>rrName = Name gr, rrTTL = TTL gr * Second, rrType = Type gr, rrData = Data gr\<rparr> \<and>
   (- 9223372036 \<le> sint (TTL gr) \<and> sint (TTL gr) \<le> 9223372036
      \<longrightarrow> sint (TTL gr * Second) = sint (TTL gr) * 1000000000
          \<and> duration_div (TTL gr * Second) Second = TTL gr)"
proof -
  have a: "(ToUpper L (Type gr) = ''A'' \<or> ToUpper L (Type gr) = ''AAAA'')
      \<and> ParseAddr L (Data gr) = None
      \<longrightarrow> convertToLibdnsRecord L gr = fallbackRR gr"
    by (simp add: decode_address)
  have b: "ToUpper L (Type gr) = ''MX'' \<and> CHR '' '' \<notin> set (Data gr)
      \<longrightarrow> convertToLibdnsRecord L gr = fallbackRR gr"
    by (simp add: decode_MX SplitN2_none)
  have c: "ToUpper L (Type gr) = ''MX'' \<and> Data gr = p0 @ '' '' @ p1 \<and> CHR '' '' \<notin> set p0
      \<and> ParseUint16 p0 = None
      \<longrightarrow> convertToLibdnsRecord L gr = fallbackRR gr"
    by (simp add: decode_MX SplitN2_cut)
  have d: "ToUpper L (Type gr) \<notin> {''A'', ''AAAA'', ''TXT'', ''CNAME'', ''MX'', ''NS''}
      \<longrightarrow> convertToLibdnsRecord L gr = fallbackRR gr"
    using decode_other by blast
  have e: "(fallbackRR gr :: 'ip Record) =
      RR \<lparr>rrName = Name gr, rrTTL = TTL gr * Second, rrType = Type gr, rrData = Data gr\<rparr>"
    by (simp add: fallbackRR_def)
  have f: "- 9223372036 \<le> sint (TTL gr) \<and> sint (TTL gr) \<le> 9223372036
      \<longrightarrow> sint (TTL gr * Second) = sint (TTL gr) * 1000000000
          \<and> duration_div (TTL gr * Second) Second = TTL gr"
    by (simp add: sint_times_Second duration_div_times_Second)
  from a b c d e f show ?thesis by blast
qed

lemma parseIPv4_examples: "parseIPv4 ''not-an-ip'' = None" "parseIPv4 ''1.2.3.4'' = Some (IPv4 1 2 3 4)"
  "parseIPv4 ''192.168.1.1'' = Some (IPv4 192 168 1 1)" "parseIPv4 ''01.2.3.4'' = None"
  "parseIPv4 ''1.2.3.256'' = None" "parseIPv4 ''1.2.3'' = None"  "parseIPv4 ''1.2.3.4.5'' = None"
  "parseIPv4 ''1..3.4'' = None" "Addr4_String (IPv4 192 168 1 1) = ''192.168.1.1''"
  by (simp_all add: parseIPv4_def parseOctet_def isDigit_def decimalVal_def digitVal_def
      char_of_def bit_Suc_0_iff)


text \<open>The equations that evaluate the examples.\<close>

lemmas example_eval =
  exampleLibrary_def ToUpper_def isASCII_def asciiUpper_def char_of_def bit_Suc_0_iff
  parseIPv4_def parseOctet_def isDigit_def decimalVal_def digitVal_def ParseUint16_def
  fallbackRR_def SplitN2_def

theorem convertToLibdnsRecord_fallback_witness:
  "ToUpper exampleLibrary ''A'' = ''A'' \<and> ParseAddr exampleLibrary ''not-an-ip'' = None \<and>
   convertToLibdnsRecord exampleLibrary
       \<lparr>Type = ''A'', Name = ''www'', Data = ''not-an-ip'', TTL = 3600\<rparr>
     = RR \<lparr>rrName = ''www'', rrTTL = 3600 * Second, rrType = ''A'', rrData = ''not-an-ip''\<rparr> \<and>
   convertToLibdnsRecord exampleLibrary
       \<lparr>Type = ''MX'', Name = ''@'', Data = ''invalid-mx-format'', TTL = 3600\<rparr>
     = RR \<lparr>rrName = ''@'', rrTTL = 3600 * Second, rrType = ''MX'',
           rrData = ''invalid-mx-format''\<rparr> \<and>
   ParseUint16 ''70000'' = None \<and>
   convertToLibdnsRecord exampleLibrary
       \<lparr>Type = ''mx'', Name = ''@'', Data = ''70000'' @ '' '' @ ''mail.example.com'', TTL = 3600\<rparr>
     = RR \<lparr>rrName = ''@'', rrTTL = 3600 * Second, rrType = ''mx'',
           rrData = ''70000 mail.example.com''\<rparr> \<and>
   ToUpper exampleLibrary ''SRV'' = ''SRV'' \<and>
   convertToLibdnsRecord exampleLibrary
       \<lparr>Type = ''SRV'', Name = ''_sip._tcp'', Data = ''0 5 5060 sip.example.com'', TTL = 3600\<rparr>
     = RR \<lparr>rrName = ''_sip._tcp'', rrTTL = 3600 * Second, rrType = ''SRV'',
           rrData = ''0 5 5060 sip.example.com''\<rparr> \<and>
   sint (3600 * Second) = 3600 * 1000000000 \<and>
   duration_div (3600 * Second) Second = 3600"
  using
    convertToLibdnsRecord_fallback [of exampleLibrary
      "\<lparr>Type = ''A'', Name = ''www'', Data = ''not-an-ip'', TTL = 3600\<rparr>" "''x''" "''y''"]
    convertToLibdnsRecord_fallback [of exampleLibrary
      "\<lparr>Type = ''MX'', Name = ''@'', Data = ''invalid-mx-format'', TTL = 3600\<rparr>" "''x''" "''y''"]
    convertToLibdnsRecord_fallback [of exampleLibrary
      "\<lparr>Type = ''mx'', Name = ''@'', Data = ''70000'' @ '' '' @ ''mail.example.com'', TTL = 3600\<rparr>"
      "''70000''" "''mail.example.com''"]
    convertToLibdnsRecord_fallback [of exampleLibrary
      "\<lparr>Type = ''SRV'', Name = ''_sip._tcp'', Data = ''0 5 5060 sip.example.com'', TTL = 3600\<rparr>"
      "''x''" "''y''"]
  by (simp add: example_eval)

text \<open>
  C1 as stated fails on the TTL: the product \<^verbatim>\<open>time.Duration(gr.TTL) * time.Second\<close> is
  an \<^verbatim>\<open>int64\<close> and wraps around. The record of type \<^verbatim>\<open>SRV\<close> with a TTL of
  9223372037 seconds decodes to the fallback with a negative duration, which is
  -9223372036 seconds when read back.
\<close>

theorem convertToLibdnsRecord_fallback_counterexample:
  "convertToLibdnsRecord exampleLibrary
       \<lparr>Type = ''SRV'', Name = ''_sip._tcp'', Data = ''0 5 5060 sip.example.com'',
        TTL = 9223372037\<rparr>
     = RR \<lparr>rrName = ''_sip._tcp'', rrTTL = 9223372037 * Second, rrType = ''SRV'',
           rrData = ''0 5 5060 sip.example.com''\<rparr> \<and>
   sint (rrTTL (Record_RR exampleLibrary
     (convertToLibdnsRecord exampleLibrary
        \<lparr>Type = ''SRV'', Name = ''_sip._tcp'', Data = ''0 5 5060 sip.example.com'',
         TTL = 9223372037\<rparr>))) = - 9223372036709551616 \<and>
   sint (rrTTL (Record_RR exampleLibrary
     (convertToLibdnsRecord exampleLibrary
        \<lparr>Type = ''SRV'', Name = ''_sip._tcp'', Data = ''0 5 5060 sip.example.com'',
         TTL = 9223372037\<rparr>))) \<noteq> 9223372037 * 1000000000 \<and>
   duration_div (rrTTL (Record_RR exampleLibrary
     (convertToLibdnsRecord exampleLibrary
        \<lparr>Type = ''SRV'', Name = ''_sip._tcp'', Data = ''0 5 5060 sip.example.com'',
         TTL = 9223372037\<rparr>))) Second \<noteq> 9223372037"
  by (simp add: convertToLibdnsRecord_def Let_def example_eval Second_def duration_div_def
      signed_divide_int_def)

text \<open>
  C6 as stated fails: the code cuts the data at the first space byte, not at the first
  run of whitespace. On \<^verbatim>\<open>"10  mail.example.com"\<close>, with two spaces, the target keeps
  the second space, where the split on a whitespace run gives \<^verbatim>\<open>"mail.example.com"\<close>.
\<close>

theorem convertToLibdnsRecord_MX_counterexample:
  "convertToLibdnsRecord exampleLibrary
       \<lparr>Type = ''MX'', Name = ''@'', Data = ''10  mail.example.com'', TTL = 3600\<rparr>
     = MX ''@'' (3600 * Second) 10 '' mail.example.com'' \<and>
   spec_decodeMX \<lparr>Type = ''MX'', Name = ''@'', Data = ''10  mail.example.com'', TTL = 3600\<rparr>
     = (MX ''@'' (3600 * Second) 10 ''mail.example.com'' :: Addr4 Record) \<and>
   convertToLibdnsRecord exampleLibrary
       \<lparr>Type = ''MX'', Name = ''@'', Data = ''10  mail.example.com'', TTL = 3600\<rparr>
     \<noteq> spec_decodeMX
         \<lparr>Type = ''MX'', Name = ''@'', Data = ''10  mail.example.com'', TTL = 3600\<rparr>"
  by (simp add: convertToLibdnsRecord_def spec_decodeMX_def spec_splitWhitespaceRun_def
      isWhitespace_def example_eval)

text \<open>
  C6, amended. For a record of type \<^verbatim>\<open>MX\<close> the data is cut at its first space byte.
  When the part before it is an unsigned 16-bit decimal, the result is the mail exchange
  with that preference and with everything after that space as target; when it is not,
  and when the data has no space, the result is the fallback with the type and the data
  of the input.
\<close>

theorem convertToLibdnsRecord_MX:
  "ToUpper L (Type gr) = ''MX'' \<Longrightarrow>
   (Data gr = p0 @ '' '' @ p1 \<and> ParseUint16 p0 = Some pref
      \<longrightarrow> convertToLibdnsRecord L gr = MX (Name gr) (TTL gr * Second) pref p1) \<and>
   (Data gr = p0 @ '' '' @ p1 \<and> CHR '' '' \<notin> set p0 \<and> ParseUint16 p0 = None
      \<longrightarrow> convertToLibdnsRecord L gr = fallbackRR gr) \<and>
   (CHR '' '' \<notin> set (Data gr) \<longrightarrow> convertToLibdnsRecord L gr = fallbackRR gr) \<and>
   (fallbackRR gr :: 'ip Record) =
      RR \<lparr>rrName = Name gr, rrTTL = TTL gr * Second, rrType = Type gr, rrData = Data gr\<rparr>"
proof -
  assume mx: "ToUpper L (Type gr) = ''MX''"
  have a: "Data gr = p0 @ '' '' @ p1 \<and> ParseUint16 p0 = Some pref
      \<longrightarrow> convertToLibdnsRecord L gr = MX (Name gr) (TTL gr * Second) pref p1"
    using mx ParseUint16_no_space [of p0 pref] by (auto simp: decode_MX SplitN2_cut)
  have b: "Data gr = p0 @ '' '' @ p1 \<and> CHR '' '' \<notin> set p0 \<and> ParseUint16 p0 = None
      \<longrightarrow> convertToLibdnsRecord L gr = fallbackRR gr"
    using mx by (simp add: decode_MX SplitN2_cut)
  have c: "CHR '' '' \<notin> set (Data gr) \<longrightarrow> convertToLibdnsRecord L gr = fallbackRR gr"
    using mx by (simp add: decode_MX SplitN2_none)
  have d: "(fallbackRR gr :: 'ip Record) =
      RR \<lparr>rrName = Name gr, rrTTL = TTL gr * Second, rrType = Type gr, rrData = Data gr\<rparr>"
    by (simp add: fallbackRR_def)
  from a b c d show ?thesis by blast
qed

theorem convertToLibdnsRecord_MX_witness:
  "ToUpper exampleLibrary ''MX'' = ''MX'' \<and> ParseUint16 ''10'' = Some 10 \<and>
   convertToLibdnsRecord exampleLibrary
       \<lparr>Type = ''MX'', Name = ''@'', Data = ''10'' @ '' '' @ ''mail.example.com'', TTL = 3600\<rparr>
     = MX ''@'' (3600 * Second) 10 ''mail.example.com'' \<and>
   ParseUint16 ''ten'' = None \<and>
   convertToLibdnsRecord exampleLibrary
       \<lparr>Type = ''MX'', Name = ''@'', Data = ''ten'' @ '' '' @ ''mail.example.com'', TTL = 3600\<rparr>
     = RR \<lparr>rrName = ''@'', rrTTL = 3600 * Second, rrType = ''MX'',
           rrData = ''ten mail.example.com''\<rparr> \<and>
   convertToLibdnsRecord exampleLibrary
       \<lparr>Type = ''MX'', Name = ''@'', Data = ''invalid-mx-format'', TTL = 3600\<rparr>
     = RR \<lparr>rrName = ''@'', rrTTL = 3600 * Second, rrType = ''MX'',
           rrData = ''invalid-mx-format''\<rparr>"
  using
    convertToLibdnsRecord_MX [of exampleLibrary
      "\<lparr>Type = ''MX'', Name = ''@'', Data = ''10'' @ '' '' @ ''mail.example.com'', TTL = 3600\<rparr>"
      "''10''" "''mail.example.com''" 10]
    convertToLibdnsRecord_MX [of exampleLibrary
      "\<lparr>Type = ''MX'', Name = ''@'', Data = ''ten'' @ '' '' @ ''mail.example.com'', TTL = 3600\<rparr>"
      "''ten''" "''mail.example.com''" 10]
    convertToLibdnsRecord_MX [of exampleLibrary
      "\<lparr>Type = ''MX'', Name = ''@'', Data = ''invalid-mx-format'', TTL = 3600\<rparr>"
      "''x''" "''y''" 10]
  by (simp add: example_eval)


section \<open>The type tag\<close>

text \<open>
  C7 as stated fails: \<open>convertFromLibdnsRecord\<close> copies the type of the RR view and does
  not upper-case it. The variant \<^verbatim>\<open>RR\<close> with the type \<^verbatim>\<open>"txt"\<close> is encoded with the
  type \<^verbatim>\<open>"txt"\<close>.
\<close>

theorem convertFromLibdnsRecord_Type_counterexample:
  "Type (convertFromLibdnsRecord exampleLibrary
           (RR \<lparr>rrName = ''www'', rrTTL = 3600 * Second, rrType = ''txt'', rrData = ''hello''\<rparr>)
           ''example.com.'') = ''txt'' \<and>
   ToUpper exampleLibrary ''txt'' = ''TXT'' \<and>
   Type (convertFromLibdnsRecord exampleLibrary
           (RR \<lparr>rrName = ''www'', rrTTL = 3600 * Second, rrType = ''txt'', rrData = ''hello''\<rparr>)
           ''example.com.'')
     \<noteq> ToUpper exampleLibrary
         (rrType \<lparr>rrName = ''www'', rrTTL = 3600 * Second, rrType = ''txt'',
                  rrData = ''hello''\<rparr>)"
  by (simp add: convertFromLibdnsRecord_def Let_def example_eval)

lemma decode_retag:
  assumes "ToUpper L t' = ToUpper L (Type gr)"
  shows "convertToLibdnsRecord L (gr\<lparr>Type := t'\<rparr>) =
     (case convertToLibdnsRecord L gr of
        RR r \<Rightarrow> RR (r\<lparr>rrType := t'\<rparr>)
      | typed \<Rightarrow> typed)"
  using assms
  by (simp add: convertToLibdnsRecord_def Let_def fallbackRR_def
      split: option.split list.split)

text \<open>
  C7, amended. The type of the vendor record is the type of the RR view, copied as it
  is and not upper-cased: for the variant \<^verbatim>\<open>RR\<close> it is the caller's own tag, in the
  case the caller wrote it. Decoding looks at the type through \<^verbatim>\<open>strings.ToUpper\<close>
  only: replacing the type by one with the same upper-case form changes nothing but the
  tag a fallback carries.
\<close>

theorem convertFromLibdnsRecord_Type:
  "Type (convertFromLibdnsRecord L record zone) = rrType (Record_RR L record) \<and>
   Type (convertFromLibdnsRecord L (RR r) zone) = rrType r \<and>
   (ToUpper L t' = ToUpper L (Type gr) \<longrightarrow>
      convertToLibdnsRecord L (gr\<lparr>Type := t'\<rparr>) =
        (case convertToLibdnsRecord L gr of
           RR r \<Rightarrow> RR (r\<lparr>rrType := t'\<rparr>)
         | typed \<Rightarrow> typed))"
proof -
  have a: "Type (convertFromLibdnsRecord L record zone) = rrType (Record_RR L record)"
    by (simp add: convertFromLibdnsRecord_def Let_def)
  have b: "Type (convertFromLibdnsRecord L (RR r) zone) = rrType r"
    by (simp add: convertFromLibdnsRecord_def Let_def)
  from a b decode_retag [of L t' gr] show ?thesis by blast
qed

theorem convertFromLibdnsRecord_Type_witness:
  "Type (convertFromLibdnsRecord exampleLibrary (TXT ''www'' (3600 * Second) ''hello'')
           ''example.com.'') = ''TXT'' \<and>
   Type (convertFromLibdnsRecord exampleLibrary
           (RR \<lparr>rrName = ''www'', rrTTL = 3600 * Second, rrType = ''txt'', rrData = ''hello''\<rparr>)
           ''example.com.'') = ''txt'' \<and>
   ToUpper exampleLibrary ''mx'' = ToUpper exampleLibrary ''MX'' \<and>
   convertToLibdnsRecord exampleLibrary
       \<lparr>Type = ''mx'', Name = ''@'', Data = ''10 mail.example.com'', TTL = 3600\<rparr>
     = convertToLibdnsRecord exampleLibrary
       \<lparr>Type = ''MX'', Name = ''@'', Data = ''10 mail.example.com'', TTL = 3600\<rparr> \<and>
   convertToLibdnsRecord exampleLibrary
       \<lparr>Type = ''MX'', Name = ''@'', Data = ''10 mail.example.com'', TTL = 3600\<rparr>
     = MX ''@'' (3600 * Second) 10 ''mail.example.com''"
  using
    convertFromLibdnsRecord_Type [of exampleLibrary "TXT ''www'' (3600 * Second) ''hello''"
      "''example.com.''"
      "\<lparr>rrName = ''www'', rrTTL = 3600 * Second, rrType = ''txt'', rrData = ''hello''\<rparr>"
      "''mx''"
      "\<lparr>Type = ''MX'', Name = ''@'', Data = ''10 mail.example.com'', TTL = 3600\<rparr>"]
  by (simp add: convertToLibdnsRecord_def Let_def example_eval)

section \<open>Decode, encode, decode\<close>

lemma encode_address:
  "convertFromLibdnsRecord L (Address name ttl ip) zone =
     \<lparr>Type = (if Is6 L ip then ''AAAA'' else ''A''), Name = getRecordName zone name,
      Data = AddrString L ip,
      TTL = (if sint (duration_div ttl Second) < 600 then 600 else duration_div ttl Second)\<rparr>"
  by (simp add: convertFromLibdnsRecord_def Let_def)

text \<open>
  C8, amended. Take a vendor record whose type, upper-cased, is \<^verbatim>\<open>A\<close> or \<^verbatim>\<open>AAAA\<close>,
  whose data parses to an address that \<^verbatim>\<open>netip\<close> reads back from its own
  \<^verbatim>\<open>String()\<close>, whose name ends neither with the zone nor with a dot, and whose TTL is
  at most 9223372036 seconds in absolute value. Decoding, encoding and decoding again
  gives the address variant with the name and the address of the first decoding and the
  TTL raised to 600 seconds when below. The vendor record written in between has the
  type \<^verbatim>\<open>AAAA\<close> or \<^verbatim>\<open>A\<close> of the address family and the text \<^verbatim>\<open>String()\<close> prints:
  the type and the data of the input survive exactly when they were these already.
\<close>

theorem address_roundtrip:
  assumes t: "ToUpper L (Type gr) = ''A'' \<or> ToUpper L (Type gr) = ''AAAA''"
    and p: "ParseAddr L (Data gr) = Some ip"
    and rt: "ParseAddr L (AddrString L ip) = Some ip"
    and nz: "\<not> suffix zone (Name gr)"
    and nd: "\<not> suffix ''.'' (Name gr)"
    and lo: "- 9223372036 \<le> sint (TTL gr)"
    and hi: "sint (TTL gr) \<le> 9223372036"
  shows "convertToLibdnsRecord L
           (convertFromLibdnsRecord L (convertToLibdnsRecord L gr) zone)
         = Address (Name gr)
             ((if sint (TTL gr) < 600 then 600 else TTL gr) * Second) ip \<and>
         convertFromLibdnsRecord L (convertToLibdnsRecord L gr) zone
         = \<lparr>Type = (if Is6 L ip then ''AAAA'' else ''A''), Name = Name gr,
            Data = AddrString L ip,
            TTL = (if sint (TTL gr) < 600 then 600 else TTL gr)\<rparr> \<and>
         (Type gr = (if Is6 L ip then ''AAAA'' else ''A'') \<and> Data gr = AddrString L ip
            \<longrightarrow> convertFromLibdnsRecord L (convertToLibdnsRecord L gr) zone
                  = gr\<lparr>TTL := (if sint (TTL gr) < 600 then 600 else TTL gr)\<rparr>)"
proof -
  have d1: "convertToLibdnsRecord L gr = Address (Name gr) (TTL gr * Second) ip"
    using t p by (simp add: decode_address)
  have n: "getRecordName zone (Name gr) = Name gr"
    using nz nd by (simp add: getRecordName_def TrimSuffix_no_suffix)
  have e: "convertFromLibdnsRecord L (convertToLibdnsRecord L gr) zone
         = \<lparr>Type = (if Is6 L ip then ''AAAA'' else ''A''), Name = Name gr,
            Data = AddrString L ip,
            TTL = (if sint (TTL gr) < 600 then 600 else TTL gr)\<rparr>"
    using lo hi by (simp add: d1 encode_address n duration_div_times_Second)
  have d2: "convertToLibdnsRecord L
        \<lparr>Type = (if Is6 L ip then ''AAAA'' else ''A''), Name = Name gr,
         Data = AddrString L ip,
         TTL = (if sint (TTL gr) < 600 then 600 else TTL gr)\<rparr>
       = Address (Name gr) ((if sint (TTL gr) < 600 then 600 else TTL gr) * Second) ip"
    using rt by (simp add: decode_address ToUpper_A)
  have l: "Type gr = (if Is6 L ip then ''AAAA'' else ''A'') \<and> Data gr = AddrString L ip
            \<longrightarrow> convertFromLibdnsRecord L (convertToLibdnsRecord L gr) zone
                  = gr\<lparr>TTL := (if sint (TTL gr) < 600 then 600 else TTL gr)\<rparr>"
    unfolding e by (cases gr) simp
  have f: "convertToLibdnsRecord L
           (convertFromLibdnsRecord L (convertToLibdnsRecord L gr) zone)
         = Address (Name gr)
             ((if sint (TTL gr) < 600 then 600 else TTL gr) * Second) ip"
    by (simp only: e d2)
  from f e l show ?thesis by blast
qed

text \<open>
  C8 as stated fails on the type: the vendor record of type \<^verbatim>\<open>AAAA\<close> with the data
  \<^verbatim>\<open>"1.2.3.4"\<close> has a valid IP literal, and comes back with the type \<^verbatim>\<open>A\<close>.
\<close>

theorem address_roundtrip_counterexample:
  "ToUpper exampleLibrary ''AAAA'' = ''AAAA'' \<and>
   ParseAddr exampleLibrary ''1.2.3.4'' = Some (IPv4 1 2 3 4) \<and>
   \<not> suffix ''example.com.'' ''www'' \<and>
   rrType (Record_RR exampleLibrary
     (convertToLibdnsRecord exampleLibrary
       (convertFromLibdnsRecord exampleLibrary
         (convertToLibdnsRecord exampleLibrary
            \<lparr>Type = ''AAAA'', Name = ''www'', Data = ''1.2.3.4'', TTL = 3600\<rparr>)
         ''example.com.''))) = ''A'' \<and>
   Type (convertFromLibdnsRecord exampleLibrary
         (convertToLibdnsRecord exampleLibrary
            \<lparr>Type = ''AAAA'', Name = ''www'', Data = ''1.2.3.4'', TTL = 3600\<rparr>)
         ''example.com.'') \<noteq> ''AAAA''"
  by (simp add: convertToLibdnsRecord_def convertFromLibdnsRecord_def Let_def example_eval
      suffix_def getRecordName_def TrimSuffix_def HasSuffix_def)

theorem address_roundtrip_witness:
  "ToUpper exampleLibrary ''A'' = ''A'' \<and>
   ParseAddr exampleLibrary ''192.168.2.10'' = Some (IPv4 192 168 2 10) \<and>
   ParseAddr exampleLibrary (AddrString exampleLibrary (IPv4 192 168 2 10))
     = Some (IPv4 192 168 2 10) \<and>
   \<not> suffix ''example.com.'' ''www'' \<and> \<not> suffix ''.'' ''www'' \<and>
   convertToLibdnsRecord exampleLibrary
     (convertFromLibdnsRecord exampleLibrary
       (convertToLibdnsRecord exampleLibrary
          \<lparr>Type = ''A'', Name = ''www'', Data = ''192.168.2.10'', TTL = 300\<rparr>)
       ''example.com.'')
     = Address ''www'' (600 * Second) (IPv4 192 168 2 10) \<and>
   convertFromLibdnsRecord exampleLibrary
       (convertToLibdnsRecord exampleLibrary
          \<lparr>Type = ''A'', Name = ''www'', Data = ''192.168.2.10'', TTL = 300\<rparr>)
       ''example.com.''
     = \<lparr>Type = ''A'', Name = ''www'', Data = ''192.168.2.10'', TTL = 600\<rparr>"
proof -
  have ev: "ToUpper exampleLibrary ''A'' = ''A''"
    "ParseAddr exampleLibrary ''192.168.2.10'' = Some (IPv4 192 168 2 10)"
    "AddrString exampleLibrary (IPv4 192 168 2 10) = ''192.168.2.10''"
    "Is6 exampleLibrary (IPv4 192 168 2 10) = False"
    "\<not> suffix ''example.com.'' ''www''" "\<not> suffix ''.'' ''www''"
    by (simp_all add: example_eval suffix_def)
  note r = address_roundtrip [of exampleLibrary
      "\<lparr>Type = ''A'', Name = ''www'', Data = ''192.168.2.10'', TTL = 300\<rparr>"
      "IPv4 192 168 2 10" "''example.com.''"]
  have a: "convertToLibdnsRecord exampleLibrary
     (convertFromLibdnsRecord exampleLibrary
       (convertToLibdnsRecord exampleLibrary
          \<lparr>Type = ''A'', Name = ''www'', Data = ''192.168.2.10'', TTL = 300\<rparr>)
       ''example.com.'')
     = Address ''www'' (600 * Second) (IPv4 192 168 2 10)"
    using r [THEN conjunct1] by (simp add: ev)
  have b: "convertFromLibdnsRecord exampleLibrary
       (convertToLibdnsRecord exampleLibrary
          \<lparr>Type = ''A'', Name = ''www'', Data = ''192.168.2.10'', TTL = 300\<rparr>)
       ''example.com.''
     = \<lparr>Type = ''A'', Name = ''www'', Data = ''192.168.2.10'', TTL = 600\<rparr>"
    using r [THEN conjunct2, THEN conjunct1] by (simp add: ev)
  have c: "ParseAddr exampleLibrary (AddrString exampleLibrary (IPv4 192 168 2 10))
     = Some (IPv4 192 168 2 10)"
    by (simp add: ev)
  from ev c a b show ?thesis by blast
qed

section \<open>The delete match\<close>

lemma findCurrent_find:
  "findCurrent L zone (Record_RR L r) (getRecordName zone (rrName (Record_RR L r))) cur
     = find (\<lambda>c. matchKey L zone c = matchKey L zone r) cur"
  by (induction cur) (auto simp: matchKey_def Let_def)

lemma findLoop_spec:
  "findLoop L zone cur records acc = acc @ spec_matches L zone cur records"
proof (induction records arbitrary: acc)
  case Nil
  then show ?case by (simp add: spec_matches_def)
next
  case (Cons r records)
  show ?case
    by (simp add: Cons.IH findCurrent_find Let_def spec_matches_def split: option.split)
qed

lemma spec_matches_length: "length (spec_matches L zone cur records) \<le> length records"
  by (induction records) (auto simp: spec_matches_def split: option.split)

lemma spec_matches_filter:
  "spec_matches L zone cur
     (filter (\<lambda>r. list_ex (\<lambda>c. matchKey L zone c = matchKey L zone r) cur) records)
   = spec_matches L zone cur records"
proof (induction records)
  case Nil
  then show ?case by simp
next
  case (Cons r records)
  have "\<not> list_ex (\<lambda>c. matchKey L zone c = matchKey L zone r) cur \<Longrightarrow>
        find (\<lambda>c. matchKey L zone c = matchKey L zone r) cur = None"
    by (simp add: find_None_iff list_ex_iff)
  with Cons show ?case by (auto simp: spec_matches_def)
qed

lemma deleteLoop_result:
  "deleteLoop T L p ctx zone client todo dr s = ((ds, err), s') \<Longrightarrow>
   (err = None \<longrightarrow> ds = dr) \<and> (err \<noteq> None \<longrightarrow> ds = [])"
  by (induction todo arbitrary: s) (auto split: prod.splits option.splits)

lemma DeleteRecords_after_get:
  "GetRecords T L p ctx zone s = ((cur, None), s1) \<Longrightarrow>
   DeleteRecords T L p ctx zone records s =
     deleteLoop T L p ctx zone (getHTTPClient p) (spec_matches L zone cur records)
       (spec_matches L zone cur records) s1"
  by (simp add: DeleteRecords_def Let_def findLoop_spec)

text \<open>
  C2. Once \<^verbatim>\<open>GetRecords\<close> has returned the remote records, the first loop of
  \<^verbatim>\<open>DeleteRecords\<close> collects what the specification selects: per request, the first
  remote record with the same type and the same relative name, and nothing when there is
  none, so never more records than requests. Two requests with the same type and the same
  relative name select the same record, whatever their data and TTL. When
  \<^verbatim>\<open>DeleteRecords\<close> returns no error, the records it returns are that selection. Requests
  without a remote match can be left out of the list without any change to the outcome,
  and when no request has a match the call returns the empty list and no error, right
  after the read.
\<close>

theorem DeleteRecords_matching:
  assumes g: "GetRecords T L p ctx zone s = ((currentRecords, None), s1)"
  shows "findLoop L zone currentRecords records []
           = spec_matches L zone currentRecords records \<and>
         length (findLoop L zone currentRecords records []) \<le> length records \<and>
         (rrType (Record_RR L r) = rrType (Record_RR L r') \<and>
          getRecordName zone (rrName (Record_RR L r))
            = getRecordName zone (rrName (Record_RR L r'))
            \<longrightarrow> findLoop L zone currentRecords [r] [] = findLoop L zone currentRecords [r'] []) \<and>
         (snd (fst (DeleteRecords T L p ctx zone records s)) = None
            \<longrightarrow> fst (fst (DeleteRecords T L p ctx zone records s))
                  = spec_matches L zone currentRecords records) \<and>
         DeleteRecords T L p ctx zone records s
           = DeleteRecords T L p ctx zone
               (filter (\<lambda>r. list_ex (\<lambda>c. matchKey L zone c = matchKey L zone r)
                                currentRecords) records) s \<and>
         ((\<forall>r \<in> set records. \<forall>c \<in> set currentRecords.
              matchKey L zone c \<noteq> matchKey L zone r)
            \<longrightarrow> DeleteRecords T L p ctx zone records s = (([], None), s1))"
proof -
  have a: "findLoop L zone currentRecords records []
           = spec_matches L zone currentRecords records"
    by (simp add: findLoop_spec)
  have b: "length (findLoop L zone currentRecords records []) \<le> length records"
    by (simp add: findLoop_spec spec_matches_length)
  have c: "rrType (Record_RR L r) = rrType (Record_RR L r') \<and>
          getRecordName zone (rrName (Record_RR L r))
            = getRecordName zone (rrName (Record_RR L r'))
            \<longrightarrow> findLoop L zone currentRecords [r] [] = findLoop L zone currentRecords [r'] []"
    by (simp add: findLoop_spec spec_matches_def matchKey_def)
  obtain ds err s' where d0:
    "deleteLoop T L p ctx zone (getHTTPClient p) (spec_matches L zone currentRecords records)
       (spec_matches L zone currentRecords records) s1 = ((ds, err), s')"
    by (metis surj_pair)
  have d: "snd (fst (DeleteRecords T L p ctx zone records s)) = None
            \<longrightarrow> fst (fst (DeleteRecords T L p ctx zone records s))
                  = spec_matches L zone currentRecords records"
    using deleteLoop_result [OF d0] by (simp add: DeleteRecords_after_get [OF g] d0)
  have e: "DeleteRecords T L p ctx zone records s
           = DeleteRecords T L p ctx zone
               (filter (\<lambda>r. list_ex (\<lambda>c. matchKey L zone c = matchKey L zone r)
                                currentRecords) records) s"
    by (simp add: DeleteRecords_after_get [OF g] spec_matches_filter)
  have f: "(\<forall>r \<in> set records. \<forall>c \<in> set currentRecords.
              matchKey L zone c \<noteq> matchKey L zone r)
            \<longrightarrow> DeleteRecords T L p ctx zone records s = (([], None), s1)"
  proof
    assume n: "\<forall>r \<in> set records. \<forall>c \<in> set currentRecords.
              matchKey L zone c \<noteq> matchKey L zone r"
    then have "\<forall>r \<in> set records.
        find (\<lambda>c. matchKey L zone c = matchKey L zone r) currentRecords = None"
      by (simp add: find_None_iff)
    then have "spec_matches L zone currentRecords records = []"
      by (simp add: spec_matches_def)
    then show "DeleteRecords T L p ctx zone records s = (([], None), s1)"
      by (simp add: DeleteRecords_after_get [OF g])
  qed
  from a b c d e f show ?thesis by blast
qed


text \<open>The equations that evaluate the remote calls of the examples.\<close>

lemmas net_eval =
  GetRecords_def DeleteRecords_def AppendRecords_def SetRecords_def appendRecord_def
  deleteRecord_def client_Do_def NewRequestWithContext_def setCommonHeaders_def
  Header_Set_def getHTTPClient_def getApiHost_def getDomain_def exampleTransport_def
  exampleProvider_def startNet_def exampleZone_def MethodGet_def MethodPut_def
  MethodDelete_def StatusOK_def StatusNoContent_def Let_def convertToLibdnsRecord_def
  convertFromLibdnsRecord_def getRecordName_def TrimSuffix_def HasSuffix_def
  duration_div_def Second_def signed_divide_int_def

theorem DeleteRecords_matching_witness:
  "fst (GetRecords (exampleTransport 10) exampleLibrary exampleProvider () ''example.com.''
          startNet)
     = ([Address ''www'' (3600 * Second) (IPv4 192 168 2 10),
         TXT ''_acme-challenge'' (600 * Second) ''token''], None) \<and>
   findLoop exampleLibrary ''example.com.''
       [Address ''www'' (3600 * Second) (IPv4 192 168 2 10),
        TXT ''_acme-challenge'' (600 * Second) ''token'']
       [TXT ''_acme-challenge.example.com.'' 0 [], TXT ''missing'' 0 []] []
     = [TXT ''_acme-challenge'' (600 * Second) ''token''] \<and>
   fst (DeleteRecords (exampleTransport 10) exampleLibrary exampleProvider () ''example.com.''
          [TXT ''_acme-challenge.example.com.'' 0 [], TXT ''missing'' 0 []] startNet)
     = ([TXT ''_acme-challenge'' (600 * Second) ''token''], None) \<and>
   DeleteRecords (exampleTransport 10) exampleLibrary exampleProvider () ''example.com.''
       [TXT ''missing'' 0 []] startNet
     = (([], None),
        snd (GetRecords (exampleTransport 10) exampleLibrary exampleProvider ()
               ''example.com.'' startNet))"
proof -
  let ?T = "exampleTransport 10"
  let ?cur = "[Address ''www'' (3600 * Second) (IPv4 192 168 2 10),
               TXT ''_acme-challenge'' (600 * Second) ''token'']"
  let ?s1 = "snd (GetRecords ?T exampleLibrary exampleProvider () ''example.com.'' startNet)"
  have g: "fst (GetRecords ?T exampleLibrary exampleProvider () ''example.com.'' startNet)
             = (?cur, None)"
    by (simp add: net_eval example_eval)
  then have g': "GetRecords ?T exampleLibrary exampleProvider () ''example.com.'' startNet
             = ((?cur, None), ?s1)"
    by (simp add: prod_eq_iff)
  have sm: "spec_matches exampleLibrary ''example.com.'' ?cur
              [TXT ''_acme-challenge.example.com.'' 0 [], TXT ''missing'' 0 []]
            = [TXT ''_acme-challenge'' (600 * Second) ''token'']"
    by (simp add: spec_matches_def matchKey_def getRecordName_def TrimSuffix_def
        HasSuffix_def exampleLibrary_def)
  have ok: "snd (fst (DeleteRecords ?T exampleLibrary exampleProvider () ''example.com.''
              [TXT ''_acme-challenge.example.com.'' 0 [], TXT ''missing'' 0 []] startNet))
            = None"
    by (simp add: net_eval example_eval)
  have nm: "\<forall>r \<in> set [TXT ''missing'' 0 []]. \<forall>c \<in> set ?cur.
              matchKey exampleLibrary ''example.com.'' c
                \<noteq> matchKey exampleLibrary ''example.com.'' r"
    by (simp add: matchKey_def getRecordName_def TrimSuffix_def HasSuffix_def
        exampleLibrary_def)
  note th1 = DeleteRecords_matching [OF g',
      of "[TXT ''_acme-challenge.example.com.'' 0 [], TXT ''missing'' 0 []]"
         "TXT ''a'' 0 []" "TXT ''a'' 0 []"]
  note th2 = DeleteRecords_matching [OF g', of "[TXT ''missing'' 0 []]"
         "TXT ''a'' 0 []" "TXT ''a'' 0 []"]
  have a: "findLoop exampleLibrary ''example.com.'' ?cur
       [TXT ''_acme-challenge.example.com.'' 0 [], TXT ''missing'' 0 []] []
     = [TXT ''_acme-challenge'' (600 * Second) ''token'']"
    using th1 sm by metis
  have b: "fst (DeleteRecords ?T exampleLibrary exampleProvider () ''example.com.''
          [TXT ''_acme-challenge.example.com.'' 0 [], TXT ''missing'' 0 []] startNet)
     = ([TXT ''_acme-challenge'' (600 * Second) ''token''], None)"
    using th1 sm ok by (metis prod.collapse)
  have c: "DeleteRecords ?T exampleLibrary exampleProvider () ''example.com.''
       [TXT ''missing'' 0 []] startNet = (([], None), ?s1)"
    using th2 nm by blast
  from g a b c show ?thesis by blast
qed

section \<open>Batches\<close>

lemma appendLoop_append:
  "appendLoop T L p ctx zone cl pre acc s = ((acc', None), s1) \<Longrightarrow>
   appendLoop T L p ctx zone cl (pre @ rest) acc s
     = appendLoop T L p ctx zone cl rest acc' s1"
  by (induction pre arbitrary: acc s) (auto split: prod.splits option.splits)

lemma appendLoop_success:
  "appendLoop T L p ctx zone cl rs acc s = ((acc', None), s1) \<Longrightarrow> acc' = acc @ rs"
proof (induction rs arbitrary: acc s)
  case Nil
  then show ?case by simp
next
  case (Cons r rs)
  obtain e s2 where step: "appendRecord T L p ctx zone cl r s = (e, s2)"
    by (metis surj_pair)
  with Cons.prems have "e = None" by (cases e) auto
  with Cons.prems step
  have "appendLoop T L p ctx zone cl rs (acc @ [r]) s2 = ((acc', None), s1)" by simp
  from Cons.IH [OF this] show ?case by simp
qed

lemma deleteLoop_append:
  "deleteLoop T L p ctx zone cl pre dr s = ((dr', None), s1) \<Longrightarrow>
   deleteLoop T L p ctx zone cl (pre @ rest) dr s
     = deleteLoop T L p ctx zone cl rest dr s1"
  by (induction pre arbitrary: s) (auto split: prod.splits option.splits)

lemma deleteLoop_passes:
  "deleteLoop T L p ctx zone cl todo dr s = ((dr', None), s') \<Longrightarrow>
   deleteLoop T L p ctx zone cl todo dr2 s = ((dr2, None), s')"
  by (induction todo arbitrary: s) (auto split: prod.splits option.splits)

lemma client_Do_sent:
  "client_Do T cl req s = (res, s') \<Longrightarrow> sent s' = sent s @ [req]"
  by (auto simp: client_Do_def split: prod.splits)

lemma appendRecord_sent:
  "appendRecord T L p ctx zone cl r s = (e, s') \<Longrightarrow>
   (e \<noteq> None \<and> sent s' = sent s) \<or>
   (\<exists>req. sent s' = sent s @ [req] \<and> reqMethod req = MethodPut)"
  by (auto simp: appendRecord_def Let_def NewRequestWithContext_def setCommonHeaders_def
      split: sum.splits option.splits prod.splits if_splits dest!: client_Do_sent)

lemma deleteRecord_sent:
  "deleteRecord T L p ctx zone cl r s = (e, s') \<Longrightarrow>
   (e \<noteq> None \<and> sent s' = sent s) \<or>
   (\<exists>req. sent s' = sent s @ [req] \<and> reqMethod req = MethodDelete)"
  by (auto simp: deleteRecord_def Let_def NewRequestWithContext_def setCommonHeaders_def
      split: sum.splits option.splits prod.splits if_splits dest!: client_Do_sent)

lemma appendLoop_sent:
  "appendLoop T L p ctx zone cl rs acc s = (res, s') \<Longrightarrow>
   \<exists>new. sent s' = sent s @ new \<and> length new \<le> length rs
         \<and> (\<forall>req \<in> set new. reqMethod req = MethodPut)"
proof (induction rs arbitrary: acc s)
  case Nil
  then show ?case by simp
next
  case (Cons r rs)
  obtain e s1 where step: "appendRecord T L p ctx zone cl r s = (e, s1)"
    by (metis surj_pair)
  from appendRecord_sent [OF step] obtain n1 where
    n1: "sent s1 = sent s @ n1" "length n1 \<le> 1" "\<forall>req \<in> set n1. reqMethod req = MethodPut"
    by (metis append_Nil2 length_Cons list.size(3) One_nat_def le_refl zero_le
        empty_iff empty_set set_ConsD)
  show ?case
  proof (cases e)
    case (Some err)
    with Cons.prems step have "s' = s1" by simp
    with n1 show ?thesis by (intro exI [of _ n1]) simp
  next
    case None
    with Cons.prems step have "appendLoop T L p ctx zone cl rs (acc @ [r]) s1 = (res, s')"
      by simp
    from Cons.IH [OF this] obtain n2 where
      n2: "sent s' = sent s1 @ n2" "length n2 \<le> length rs"
          "\<forall>req \<in> set n2. reqMethod req = MethodPut"
      by blast
    with n1 show ?thesis by (intro exI [of _ "n1 @ n2"]) auto
  qed
qed

lemma appendLoop_success_sent:
  "appendLoop T L p ctx zone cl rs acc s = ((acc', None), s') \<Longrightarrow>
   length (sent s') = length (sent s) + length rs"
proof (induction rs arbitrary: acc s)
  case Nil
  then show ?case by simp
next
  case (Cons r rs)
  obtain e s1 where step: "appendRecord T L p ctx zone cl r s = (e, s1)"
    by (metis surj_pair)
  with Cons.prems have e: "e = None"
    by (cases e) auto
  with appendRecord_sent [OF step] have "length (sent s1) = length (sent s) + 1"
    by auto
  moreover from Cons.prems step e
  have "appendLoop T L p ctx zone cl rs (acc @ [r]) s1 = ((acc', None), s')" by simp
  from Cons.IH [OF this] have "length (sent s') = length (sent s1) + length rs" .
  ultimately show ?case by simp
qed

lemma deleteLoop_success_sent:
  "deleteLoop T L p ctx zone cl rs dr s = ((dr', None), s') \<Longrightarrow>
   length (sent s') = length (sent s) + length rs"
proof (induction rs arbitrary: s)
  case Nil
  then show ?case by simp
next
  case (Cons r rs)
  obtain e s1 where step: "deleteRecord T L p ctx zone cl r s = (e, s1)"
    by (metis surj_pair)
  with Cons.prems have e: "e = None"
    by (cases e) auto
  with deleteRecord_sent [OF step] have "length (sent s1) = length (sent s) + 1"
    by auto
  moreover from Cons.prems step e
  have "deleteLoop T L p ctx zone cl rs dr s1 = ((dr', None), s')" by simp
  from Cons.IH [OF this] have "length (sent s') = length (sent s1) + length rs" .
  ultimately show ?case by simp
qed

text \<open>
  C9 as stated fails on its last part: a batch that fails returns \<^verbatim>\<open>nil\<close> with the
  error, not the records processed so far. With a remote that accepts the first call and
  answers the second with status 500, the first record alone is appended and returned,
  and the batch of both records returns the error and no record.
\<close>

theorem batch_stops_at_failure_counterexample:
  "fst (AppendRecords (exampleTransport 1) exampleLibrary exampleProvider () ''example.com.''
          [TXT ''a'' 0 ''x''] startNet)
     = ([TXT ''a'' 0 ''x''], None) \<and>
   fst (AppendRecords (exampleTransport 1) exampleLibrary exampleProvider () ''example.com.''
          [TXT ''a'' 0 ''x'', TXT ''b'' 0 ''y''] startNet)
     = ([], Some (FailedToAppend ''b'' ''example.com'' 500 [])) \<and>
   TXT ''a'' 0 ''x''
     \<notin> set (fst (fst (AppendRecords (exampleTransport 1) exampleLibrary exampleProvider ()
                         ''example.com.'' [TXT ''a'' 0 ''x'', TXT ''b'' 0 ''y''] startNet)))"
  by (simp add: net_eval example_eval)

text \<open>
  C9, amended. When the records before the \<open>N\<close>th went through and the iteration for
  the \<open>N\<close>th returns an error, \<^verbatim>\<open>AppendRecords\<close> and \<^verbatim>\<open>SetRecords\<close> on the whole list
  return that error with the empty list, whatever follows the \<open>N\<close>th record, and end in
  the state that iteration left: one call was sent for each record before, at most one
  for the \<open>N\<close>th, and none after. The same holds for the \<^verbatim>\<open>DELETE\<close> calls of
  \<^verbatim>\<open>DeleteRecords\<close> over the records it matched. What the calls before the failure did
  to the remote store stays.
\<close>

theorem batch_stops_at_failure:
  "(AppendRecords T L p ctx zone pre s = ((added, None), s1) \<and>
    appendRecord T L p ctx zone (getHTTPClient p) r s1 = (Some e, s2)
    \<longrightarrow> AppendRecords T L p ctx zone (pre @ r # post) s = (([], Some e), s2) \<and>
         SetRecords T L p ctx zone (pre @ r # post) s = (([], Some e), s2) \<and>
         added = pre \<and>
         length (sent s1) = length (sent s) + length pre \<and>
         (sent s2 = sent s1 \<or> (\<exists>req. sent s2 = sent s1 @ [req]))) \<and>
   (GetRecords T L p ctx zone s = ((cur, None), s0) \<and>
    findLoop L zone cur records [] = dpre @ d # dpost \<and>
    deleteLoop T L p ctx zone (getHTTPClient p) dpre dr s0 = ((dr', None), s3) \<and>
    deleteRecord T L p ctx zone (getHTTPClient p) d s3 = (Some e', s4)
    \<longrightarrow> DeleteRecords T L p ctx zone records s = (([], Some e'), s4) \<and>
         length (sent s3) = length (sent s0) + length dpre \<and>
         (sent s4 = sent s3 \<or> (\<exists>req. sent s4 = sent s3 @ [req])))"
proof (intro conjI impI)
  assume h: "AppendRecords T L p ctx zone pre s = ((added, None), s1) \<and>
    appendRecord T L p ctx zone (getHTTPClient p) r s1 = (Some e, s2)"
  then have l: "appendLoop T L p ctx zone (getHTTPClient p) pre [] s = ((added, None), s1)"
    and f: "appendRecord T L p ctx zone (getHTTPClient p) r s1 = (Some e, s2)"
    by (simp_all add: AppendRecords_def)
  show a: "AppendRecords T L p ctx zone (pre @ r # post) s = (([], Some e), s2)"
    by (simp add: AppendRecords_def appendLoop_append [OF l] f)
  then show "SetRecords T L p ctx zone (pre @ r # post) s = (([], Some e), s2)"
    by (simp add: SetRecords_def)
  show "added = pre" using appendLoop_success [OF l] by simp
  show "length (sent s1) = length (sent s) + length pre"
    by (rule appendLoop_success_sent [OF l])
  show "sent s2 = sent s1 \<or> (\<exists>req. sent s2 = sent s1 @ [req])"
    using appendRecord_sent [OF f] by blast
next
  assume h: "GetRecords T L p ctx zone s = ((cur, None), s0) \<and>
    findLoop L zone cur records [] = dpre @ d # dpost \<and>
    deleteLoop T L p ctx zone (getHTTPClient p) dpre dr s0 = ((dr', None), s3) \<and>
    deleteRecord T L p ctx zone (getHTTPClient p) d s3 = (Some e', s4)"
  then have g: "GetRecords T L p ctx zone s = ((cur, None), s0)"
    and m: "findLoop L zone cur records [] = dpre @ d # dpost"
    and l: "deleteLoop T L p ctx zone (getHTTPClient p) dpre dr s0 = ((dr', None), s3)"
    and f: "deleteRecord T L p ctx zone (getHTTPClient p) d s3 = (Some e', s4)"
    by simp_all
  have l': "deleteLoop T L p ctx zone (getHTTPClient p) dpre (dpre @ d # dpost) s0
              = ((dpre @ d # dpost, None), s3)"
    by (rule deleteLoop_passes [OF l])
  show "DeleteRecords T L p ctx zone records s = (([], Some e'), s4)"
    by (simp add: DeleteRecords_def g m Let_def deleteLoop_append [OF l'] f)
  show "length (sent s3) = length (sent s0) + length dpre"
    by (rule deleteLoop_success_sent [OF l])
  show "sent s4 = sent s3 \<or> (\<exists>req. sent s4 = sent s3 @ [req])"
    using deleteRecord_sent [OF f] by blast
qed

theorem batch_stops_at_failure_witness:
  "fst (AppendRecords (exampleTransport 1) exampleLibrary exampleProvider () ''example.com.''
          [TXT ''a'' 0 ''x''] startNet)
     = ([TXT ''a'' 0 ''x''], None) \<and>
   fst (appendRecord (exampleTransport 1) exampleLibrary exampleProvider () ''example.com.''
          (getHTTPClient exampleProvider) (TXT ''b'' 0 ''y'')
          (snd (AppendRecords (exampleTransport 1) exampleLibrary exampleProvider ()
                  ''example.com.'' [TXT ''a'' 0 ''x''] startNet)))
     = Some (FailedToAppend ''b'' ''example.com'' 500 []) \<and>
   AppendRecords (exampleTransport 1) exampleLibrary exampleProvider () ''example.com.''
       ([TXT ''a'' 0 ''x''] @ TXT ''b'' 0 ''y'' # [TXT ''c'' 0 ''z'']) startNet
     = (([], Some (FailedToAppend ''b'' ''example.com'' 500 [])),
        snd (appendRecord (exampleTransport 1) exampleLibrary exampleProvider ()
               ''example.com.'' (getHTTPClient exampleProvider) (TXT ''b'' 0 ''y'')
               (snd (AppendRecords (exampleTransport 1) exampleLibrary exampleProvider ()
                       ''example.com.'' [TXT ''a'' 0 ''x''] startNet)))) \<and>
   fst (GetRecords (exampleTransport 2) exampleLibrary exampleProvider () ''example.com.''
          startNet)
     = ([Address ''www'' (3600 * Second) (IPv4 192 168 2 10),
         TXT ''_acme-challenge'' (600 * Second) ''token''], None) \<and>
   fst (DeleteRecords (exampleTransport 2) exampleLibrary exampleProvider () ''example.com.''
          [RR \<lparr>rrName = ''www.example.com.'', rrTTL = 0, rrType = ''A'', rrData = []\<rparr>,
           TXT ''_acme-challenge'' 0 []] startNet)
     = ([], Some (FailedToDelete ''_acme-challenge'' ''example.com'' 500 []))"
proof -
  let ?L = exampleLibrary and ?p = exampleProvider and ?z = "''example.com.''"
  let ?cl = "getHTTPClient exampleProvider"
  let ?e = "FailedToAppend ''b'' ''example.com'' 500 []"
  let ?s1 = "snd (AppendRecords (exampleTransport 1) ?L ?p () ?z [TXT ''a'' 0 ''x''] startNet)"
  let ?s2 = "snd (appendRecord (exampleTransport 1) ?L ?p () ?z ?cl (TXT ''b'' 0 ''y'') ?s1)"
  have a1: "fst (AppendRecords (exampleTransport 1) ?L ?p () ?z [TXT ''a'' 0 ''x''] startNet)
              = ([TXT ''a'' 0 ''x''], None)"
    by (simp add: net_eval example_eval)
  have a2: "fst (appendRecord (exampleTransport 1) ?L ?p () ?z ?cl (TXT ''b'' 0 ''y'') ?s1)
              = Some ?e"
    by (simp add: net_eval example_eval)
  have h1: "AppendRecords (exampleTransport 1) ?L ?p () ?z [TXT ''a'' 0 ''x''] startNet
              = (([TXT ''a'' 0 ''x''], None), ?s1)"
    using a1 by (simp add: prod_eq_iff)
  have h2: "appendRecord (exampleTransport 1) ?L ?p () ?z ?cl (TXT ''b'' 0 ''y'') ?s1
              = (Some ?e, ?s2)"
    using a2 by (simp add: prod_eq_iff)
  note app = batch_stops_at_failure [THEN conjunct1, rule_format, OF conjI, OF h1 h2]
  have a3: "AppendRecords (exampleTransport 1) ?L ?p () ?z
              ([TXT ''a'' 0 ''x''] @ TXT ''b'' 0 ''y'' # [TXT ''c'' 0 ''z'']) startNet
            = (([], Some ?e), ?s2)"
    using app by (rule conjunct1)
  let ?cur = "[Address ''www'' (3600 * Second) (IPv4 192 168 2 10),
               TXT ''_acme-challenge'' (600 * Second) ''token'']"
  let ?recs = "[RR \<lparr>rrName = ''www.example.com.'', rrTTL = 0, rrType = ''A'', rrData = []\<rparr>,
                TXT ''_acme-challenge'' 0 []]"
  let ?dpre = "[Address ''www'' (3600 * Second) (IPv4 192 168 2 10)]"
  let ?d = "TXT ''_acme-challenge'' (600 * Second) ''token''"
  let ?e' = "FailedToDelete ''_acme-challenge'' ''example.com'' 500 []"
  let ?s0 = "snd (GetRecords (exampleTransport 2) ?L ?p () ?z startNet)"
  let ?s3 = "snd (deleteLoop (exampleTransport 2) ?L ?p () ?z ?cl ?dpre ?cur ?s0)"
  let ?s4 = "snd (deleteRecord (exampleTransport 2) ?L ?p () ?z ?cl ?d ?s3)"
  have b1: "fst (GetRecords (exampleTransport 2) ?L ?p () ?z startNet) = (?cur, None)"
    by (simp add: net_eval example_eval)
  have b2: "findLoop ?L ?z ?cur ?recs [] = ?dpre @ ?d # []"
    by (simp add: Let_def getRecordName_def TrimSuffix_def HasSuffix_def exampleLibrary_def)
  have b3: "fst (deleteLoop (exampleTransport 2) ?L ?p () ?z ?cl ?dpre ?cur ?s0) = (?cur, None)"
    by (simp add: net_eval example_eval)
  have b4: "fst (deleteRecord (exampleTransport 2) ?L ?p () ?z ?cl ?d ?s3) = Some ?e'"
    by (simp add: net_eval example_eval)
  have k1: "GetRecords (exampleTransport 2) ?L ?p () ?z startNet = ((?cur, None), ?s0)"
    using b1 by (simp add: prod_eq_iff)
  have k3: "deleteLoop (exampleTransport 2) ?L ?p () ?z ?cl ?dpre ?cur ?s0 = ((?cur, None), ?s3)"
    using b3 by (simp add: prod_eq_iff)
  have k4: "deleteRecord (exampleTransport 2) ?L ?p () ?z ?cl ?d ?s3 = (Some ?e', ?s4)"
    using b4 by (simp add: prod_eq_iff)
  have "DeleteRecords (exampleTransport 2) ?L ?p () ?z ?recs startNet = (([], Some ?e'), ?s4)"
    using batch_stops_at_failure [THEN conjunct2, rule_format, of "exampleTransport 2" ?L ?p
        "()" ?z startNet ?cur ?s0 ?recs ?dpre ?d "[]" ?cur ?cur ?s3 ?e' ?s4]
      k1 b2 k3 k4 by blast
  then have b5: "fst (DeleteRecords (exampleTransport 2) ?L ?p () ?z ?recs startNet)
                   = ([], Some ?e')"
    by simp
  from a1 a2 a3 b1 b5 show ?thesis by blast
qed

text \<open>
  C10. \<^verbatim>\<open>SetRecords\<close> returns what \<^verbatim>\<open>AppendRecords\<close> returns on the same arguments, in
  the same final state. The calls it adds to the log are \<^verbatim>\<open>PUT\<close> calls, at most one per
  record: it reads nothing back and deletes nothing.
\<close>

theorem SetRecords_eq_AppendRecords:
  "SetRecords T L p ctx zone records s = AppendRecords T L p ctx zone records s \<and>
   (\<exists>new. sent (snd (SetRecords T L p ctx zone records s)) = sent s @ new
          \<and> length new \<le> length records
          \<and> (\<forall>req \<in> set new. reqMethod req = MethodPut))"
proof
  show "SetRecords T L p ctx zone records s = AppendRecords T L p ctx zone records s"
    by (simp add: SetRecords_def)
  show "\<exists>new. sent (snd (SetRecords T L p ctx zone records s)) = sent s @ new
          \<and> length new \<le> length records
          \<and> (\<forall>req \<in> set new. reqMethod req = MethodPut)"
    unfolding SetRecords_def AppendRecords_def
    by (rule appendLoop_sent [of T L p ctx zone "getHTTPClient p" records "[]" s])
       (rule prod.collapse [symmetric])
qed

theorem SetRecords_eq_AppendRecords_witness:
  "SetRecords (exampleTransport 10) exampleLibrary exampleProvider () ''example.com.''
       [TXT ''a'' 0 ''x'', TXT ''b'' 0 ''y''] startNet
     = AppendRecords (exampleTransport 10) exampleLibrary exampleProvider () ''example.com.''
         [TXT ''a'' 0 ''x'', TXT ''b'' 0 ''y''] startNet \<and>
   fst (SetRecords (exampleTransport 10) exampleLibrary exampleProvider () ''example.com.''
          [TXT ''a'' 0 ''x'', TXT ''b'' 0 ''y''] startNet)
     = ([TXT ''a'' 0 ''x'', TXT ''b'' 0 ''y''], None) \<and>
   map reqMethod
       (sent (snd (SetRecords (exampleTransport 10) exampleLibrary exampleProvider ()
                     ''example.com.'' [TXT ''a'' 0 ''x'', TXT ''b'' 0 ''y''] startNet)))
     = [MethodPut, MethodPut]"
proof -
  have a: "SetRecords (exampleTransport 10) exampleLibrary exampleProvider () ''example.com.''
       [TXT ''a'' 0 ''x'', TXT ''b'' 0 ''y''] startNet
     = AppendRecords (exampleTransport 10) exampleLibrary exampleProvider () ''example.com.''
         [TXT ''a'' 0 ''x'', TXT ''b'' 0 ''y''] startNet"
    using SetRecords_eq_AppendRecords by (rule conjunct1)
  have b: "fst (SetRecords (exampleTransport 10) exampleLibrary exampleProvider ()
            ''example.com.'' [TXT ''a'' 0 ''x'', TXT ''b'' 0 ''y''] startNet)
     = ([TXT ''a'' 0 ''x'', TXT ''b'' 0 ''y''], None)"
    by (simp add: net_eval example_eval)
  have c: "map reqMethod
       (sent (snd (SetRecords (exampleTransport 10) exampleLibrary exampleProvider ()
                     ''example.com.'' [TXT ''a'' 0 ''x'', TXT ''b'' 0 ''y''] startNet)))
     = [MethodPut, MethodPut]"
    by (simp add: net_eval example_eval)
  from a b c show ?thesis by blast
qed

end
